theory Spec2Isabelle
  imports Complex_Main
begin

section \<open>JavaScript strings\<close>

text \<open>
  A JavaScript string is a sequence of UTF-16 code units; \<open>length\<close>, \<open>includes\<close>, the
  regular expressions (none has the \<open>u\<close> flag) and the length bounds of the schemas all
  count code units. A string literal of the source that is plain ASCII is written
  \<open>lit ''...''\<close>.
\<close>

type_synonym jsstring = "nat list"

definition lit :: "string \<Rightarrow> jsstring" where
  "lit s = map of_char s"

text \<open>White space and line terminators: what \<open>\s\<close> matches and what \<open>trim\<close> strips.\<close>

definition isWhite :: "nat \<Rightarrow> bool" where
  "isWhite c \<longleftrightarrow>
     (9 \<le> c \<and> c \<le> 13) \<or> c = 32 \<or> c = 160 \<or> c = 5760 \<or> (8192 \<le> c \<and> c \<le> 8202) \<or>
     c = 8232 \<or> c = 8233 \<or> c = 8239 \<or> c = 8287 \<or> c = 12288 \<or> c = 65279"

definition isDigit :: "nat \<Rightarrow> bool" where
  "isDigit c \<longleftrightarrow> 48 \<le> c \<and> c \<le> 57"

definition isUpper :: "nat \<Rightarrow> bool" where
  "isUpper c \<longleftrightarrow> 65 \<le> c \<and> c \<le> 90"

definition isLower :: "nat \<Rightarrow> bool" where
  "isLower c \<longleftrightarrow> 97 \<le> c \<and> c \<le> 122"

definition isLatin :: "nat \<Rightarrow> bool" where
  "isLatin c \<longleftrightarrow> isUpper c \<or> isLower c"

text \<open>\<open>\w\<close> of a regular expression without the \<open>u\<close> flag: \<open>[A-Za-z0-9_]\<close>.\<close>

definition isWordChar :: "nat \<Rightarrow> bool" where
  "isWordChar c \<longleftrightarrow> isLatin c \<or> isDigit c \<or> c = 95"

text \<open>
  \<open>String.prototype.toLowerCase\<close>. On ASCII it maps \<open>A-Z\<close> to \<open>a-z\<close> and leaves the
  rest alone. What it does to a code unit from 128 on is Unicode's case table, which is
  no part of the repository: it is the parameter \<open>lc\<close> (a unit may lower-case to
  several units, and to ASCII ones, as the Kelvin sign does).
\<close>

definition lowerUnit :: "(nat \<Rightarrow> jsstring) \<Rightarrow> nat \<Rightarrow> jsstring" where
  "lowerUnit lc c = (if isUpper c then [c + 32] else if c < 128 then [c] else lc c)"

definition toLowerCase :: "(nat \<Rightarrow> jsstring) \<Rightarrow> jsstring \<Rightarrow> jsstring" where
  "toLowerCase lc s = concat (map (lowerUnit lc) s)"

text \<open>\<open>String.prototype.trim\<close>.\<close>

definition trim :: "jsstring \<Rightarrow> jsstring" where
  "trim s = rev (dropWhile isWhite (rev (dropWhile isWhite s)))"

text \<open>\<open>s.replace(/\s+/g, " ")\<close>: every maximal run of white space becomes one space.\<close>

function collapseWhite :: "jsstring \<Rightarrow> jsstring" where
  "collapseWhite [] = []"
| "collapseWhite (c # cs) =
     (if isWhite c then 32 # collapseWhite (dropWhile isWhite cs) else c # collapseWhite cs)"
  by pat_completeness auto
termination
  by (relation "measure length") (auto simp: less_Suc_eq_le length_dropWhile_le)

fun startsWith :: "jsstring \<Rightarrow> jsstring \<Rightarrow> bool" where
  "startsWith s [] = True"
| "startsWith [] (p # ps) = False"
| "startsWith (c # cs) (p # ps) = (c = p \<and> startsWith cs ps)"

text \<open>\<open>String.prototype.includes\<close>.\<close>

fun includesStr :: "jsstring \<Rightarrow> jsstring \<Rightarrow> bool" where
  "includesStr [] p = (p = [])"
| "includesStr (c # cs) p = (startsWith (c # cs) p \<or> includesStr cs p)"

section \<open>Regular expressions\<close>

text \<open>
  The backtracking matcher of ECMAScript, for the constructs the source uses. A
  character class is a predicate on code units; with the \<open>i\<close> flag an ASCII letter of
  the pattern stands for both of its cases (a code unit from 128 on never canonicalises
  to an ASCII one). Alternatives are tried left to right, quantifiers are greedy, and
  the first way to match wins.
\<close>

datatype regex =
    Cls "nat \<Rightarrow> bool"
  | Eps
  | Seq regex regex
  | Alt regex regex
  | Rep nat "nat option" regex
  | Grp nat regex
  | WordB
  | Bol

datatype mstate = MState (prev: "nat option") (rest: jsstring) (caps: "nat \<Rightarrow> jsstring option")

definition isWordAt :: "nat option \<Rightarrow> bool" where
  "isWordAt c = (case c of None \<Rightarrow> False | Some u \<Rightarrow> isWordChar u)"

definition nextUnit :: "jsstring \<Rightarrow> nat option" where
  "nextUnit s = (case s of [] \<Rightarrow> None | c # _ \<Rightarrow> Some c)"

text \<open>The matchers of the atoms; \<open>k\<close> is the continuation, the rest of the pattern.\<close>

fun unitMatcher :: "(nat \<Rightarrow> bool) \<Rightarrow> (mstate \<Rightarrow> 'a option) \<Rightarrow> mstate \<Rightarrow> 'a option" where
  "unitMatcher p k (MState pv [] c) = None"
| "unitMatcher p k (MState pv (u # us) c) = (if p u then k (MState (Some u) us c) else None)"

fun boundaryMatcher :: "(mstate \<Rightarrow> 'a option) \<Rightarrow> mstate \<Rightarrow> 'a option" where
  "boundaryMatcher k (MState pv r c) =
     (if isWordAt pv \<noteq> isWordAt (nextUnit r) then k (MState pv r c) else None)"

text \<open>\<open>^\<close> without the \<open>m\<close> flag: the start of the input.\<close>

fun startMatcher :: "(mstate \<Rightarrow> 'a option) \<Rightarrow> mstate \<Rightarrow> 'a option" where
  "startMatcher k (MState pv r c) = (if pv = None then k (MState pv r c) else None)"

text \<open>The end of capture group \<open>i\<close>, entered when the input left was \<open>r0\<close>.\<close>

fun closeGroup :: "nat \<Rightarrow> jsstring \<Rightarrow> (mstate \<Rightarrow> 'a option) \<Rightarrow> mstate \<Rightarrow> 'a option" where
  "closeGroup i r0 k (MState pv r c) =
     k (MState pv r (c(i \<mapsto> take (length r0 - length r) r0)))"

text \<open>
  A quantifier \<open>{lo,hi}\<close>, greedy (RepeatMatcher of ECMA-262): a required iteration
  runs the body; past \<open>lo\<close>, the body is tried first and the continuation after it, and
  an iteration that consumed nothing is refused, so each one shortens the input.
  The first argument bounds the iterations still possible, by \<open>lo\<close> plus the length of
  the input left; it never cuts a match short.
\<close>

fun progressCheck :: "nat \<Rightarrow> (mstate \<Rightarrow> 'a option) \<Rightarrow> mstate \<Rightarrow> 'a option" where
  "progressCheck n k (MState pv r c) = (if length r = n then None else k (MState pv r c))"

primrec repeatMatcher ::
  "nat \<Rightarrow> ((mstate \<Rightarrow> 'a option) \<Rightarrow> mstate \<Rightarrow> 'a option) \<Rightarrow> nat \<Rightarrow> nat option \<Rightarrow>
   (mstate \<Rightarrow> 'a option) \<Rightarrow> mstate \<Rightarrow> 'a option" where
  "repeatMatcher 0 f lo hi k s = k s"
| "repeatMatcher (Suc n) f lo hi k s =
     (if hi = Some 0 then k s
      else if lo \<noteq> 0 then
        f (repeatMatcher n f (lo - 1) (map_option (\<lambda>h. h - 1) hi) k) s
      else
        (case f (progressCheck (length (rest s))
                  (repeatMatcher n f 0 (map_option (\<lambda>h. h - 1) hi) k)) s of
           Some z \<Rightarrow> Some z
         | None \<Rightarrow> k s))"

primrec matcher :: "regex \<Rightarrow> (mstate \<Rightarrow> 'a option) \<Rightarrow> mstate \<Rightarrow> 'a option" where
  "matcher (Cls p) k s = unitMatcher p k s"
| "matcher Eps k s = k s"
| "matcher (Seq a b) k s = matcher a (matcher b k) s"
| "matcher (Alt a b) k s =
     (case matcher a k s of Some z \<Rightarrow> Some z | None \<Rightarrow> matcher b k s)"
| "matcher (Rep lo hi a) k s = repeatMatcher (lo + length (rest s)) (matcher a) lo hi k s"
| "matcher (Grp i a) k s = matcher a (closeGroup i (rest s) k) s"
| "matcher WordB k s = boundaryMatcher k s"
| "matcher Bol k s = startMatcher k s"

record regmatch =
  index :: nat
  matched :: jsstring
  groups :: "nat \<Rightarrow> jsstring option"

text \<open>
  \<open>RegExp.prototype.exec\<close> without the \<open>g\<close> flag, which \<open>str.match(re)\<close> and
  \<open>re.test(str)\<close> call: the match at the leftmost index where there is one.
\<close>

fun execFrom :: "regex \<Rightarrow> nat option \<Rightarrow> jsstring \<Rightarrow> nat \<Rightarrow> regmatch option" where
  "execFrom r p s i =
     (case matcher r Some (MState p s Map.empty) of
        Some e \<Rightarrow>
          Some \<lparr>index = i, matched = take (length s - length (rest e)) s, groups = caps e\<rparr>
      | None \<Rightarrow> (case s of [] \<Rightarrow> None | c # cs \<Rightarrow> execFrom r (Some c) cs (Suc i)))"

definition exec :: "regex \<Rightarrow> jsstring \<Rightarrow> regmatch option" where
  "exec r s = execFrom r None s 0"

definition testRe :: "regex \<Rightarrow> jsstring \<Rightarrow> bool" where
  "testRe r s = (exec r s \<noteq> None)"

text \<open>Pattern syntax: a literal (one unit, or a string), classes, quantifiers.\<close>

definition foldAscii :: "nat \<Rightarrow> nat" where
  "foldAscii c = (if isUpper c then c + 32 else c)"

definition sameLetter :: "nat \<Rightarrow> nat \<Rightarrow> bool" where
  "sameLetter a u \<longleftrightarrow> u < 128 \<and> foldAscii u = foldAscii a"

definition chrI :: "char \<Rightarrow> regex" where
  "chrI c = Cls (sameLetter (of_char c))"

definition sameUnit :: "nat \<Rightarrow> nat \<Rightarrow> bool" where
  "sameUnit a u \<longleftrightarrow> u = a"

definition chrS :: "char \<Rightarrow> regex" where
  "chrS c = Cls (sameUnit (of_char c))"

definition strS :: "string \<Rightarrow> regex" where
  "strS s = foldr (\<lambda>c r. Seq (chrS c) r) s Eps"

definition strI :: "string \<Rightarrow> regex" where
  "strI s = foldr (\<lambda>c r. Seq (chrI c) r) s Eps"

definition opt :: "regex \<Rightarrow> regex" where
  "opt r = Rep 0 (Some 1) r"

definition star :: "regex \<Rightarrow> regex" where
  "star r = Rep 0 None r"

definition plus :: "regex \<Rightarrow> regex" where
  "plus r = Rep 1 None r"

definition alts :: "regex list \<Rightarrow> regex" where
  "alts rs = foldr Alt (butlast rs) (last rs)"

definition seqs :: "regex list \<Rightarrow> regex" where
  "seqs rs = foldr Seq rs Eps"


text \<open>
  Evaluation on literals: the classes unfold on a numeral only, and the bound of a
  quantifier steps down through numerals as it does through \<open>Suc\<close>.
\<close>

named_theorems js_eval

lemma isWhite_numeral [js_eval]:
  "isWhite (numeral n) \<longleftrightarrow>
     (9 \<le> (numeral n :: nat) \<and> (numeral n :: nat) \<le> 13) \<or> (numeral n :: nat) = 32 \<or>
     (numeral n :: nat) = 160 \<or> (numeral n :: nat) = 5760 \<or>
     (8192 \<le> (numeral n :: nat) \<and> (numeral n :: nat) \<le> 8202) \<or>
     (numeral n :: nat) = 8232 \<or> (numeral n :: nat) = 8233 \<or> (numeral n :: nat) = 8239 \<or>
     (numeral n :: nat) = 8287 \<or> (numeral n :: nat) = 12288 \<or> (numeral n :: nat) = 65279"
  by (rule isWhite_def)

lemma isDigit_numeral [js_eval]:
  "isDigit (numeral n) \<longleftrightarrow> 48 \<le> (numeral n :: nat) \<and> (numeral n :: nat) \<le> 57"
  by (rule isDigit_def)

lemma isUpper_numeral [js_eval]:
  "isUpper (numeral n) \<longleftrightarrow> 65 \<le> (numeral n :: nat) \<and> (numeral n :: nat) \<le> 90"
  by (rule isUpper_def)

lemma isLower_numeral [js_eval]:
  "isLower (numeral n) \<longleftrightarrow> 97 \<le> (numeral n :: nat) \<and> (numeral n :: nat) \<le> 122"
  by (rule isLower_def)

lemma isLatin_numeral [js_eval]:
  "isLatin (numeral n) \<longleftrightarrow> isUpper (numeral n) \<or> isLower (numeral n)"
  by (rule isLatin_def)

lemma isWordChar_numeral [js_eval]:
  "isWordChar (numeral n) \<longleftrightarrow>
     isLatin (numeral n) \<or> isDigit (numeral n) \<or> (numeral n :: nat) = 95"
  by (rule isWordChar_def)

lemma foldAscii_numeral [js_eval]:
  "foldAscii (numeral n) = (if isUpper (numeral n) then numeral n + 32 else numeral n)"
  by (rule foldAscii_def)

lemma sameLetter_numeral [js_eval]:
  "sameLetter (numeral a) (numeral u) \<longleftrightarrow>
     (numeral u :: nat) < 128 \<and> foldAscii (numeral u) = foldAscii (numeral a)"
  by (rule sameLetter_def)

lemma sameUnit_numeral [js_eval]:
  "sameUnit (numeral a) (numeral u) \<longleftrightarrow> (numeral u :: nat) = numeral a"
  by (rule sameUnit_def)

lemma lowerUnit_numeral [js_eval]:
  "lowerUnit lc (numeral n) =
     (if isUpper (numeral n) then [numeral n + 32]
      else if (numeral n :: nat) < 128 then [numeral n] else lc (numeral n))"
  by (rule lowerUnit_def)

lemma repeatMatcher_numeral [js_eval]:
  "repeatMatcher (numeral v) f lo hi k s =
     (if hi = Some 0 then k s
      else if lo \<noteq> 0 then
        f (repeatMatcher (pred_numeral v) f (lo - 1) (map_option (\<lambda>h. h - 1) hi) k) s
      else
        (case f (progressCheck (length (rest s))
                  (repeatMatcher (pred_numeral v) f 0 (map_option (\<lambda>h. h - 1) hi) k)) s of
           Some z \<Rightarrow> Some z
         | None \<Rightarrow> k s))"
  by (simp add: numeral_eq_Suc)

lemmas regex_syntax =
  seqs_def alts_def strI_def chrI_def strS_def chrS_def opt_def star_def plus_def exec_def testRe_def lit_def
  isWordAt_def nextUnit_def


section \<open>JSON values and what the environment supplies\<close>

text \<open>
  A value that \<open>JSON.parse\<close> returns. \<open>JSON.parse\<close> and \<open>Response.json\<close> themselves are
  the runtime's: the parameter \<open>jp\<close> is the parser, \<open>None\<close> where it throws a
  SyntaxError. An object is the list of its properties, each key once.
\<close>

datatype json =
    JNull
  | JBool bool
  | JNum rat
  | JStr jsstring
  | JArr "json list"
  | JObj "(jsstring \<times> json) list"

text \<open>\<open>!value\<close> on a parsed value.\<close>

fun falsy :: "json \<Rightarrow> bool" where
  "falsy JNull = True"
| "falsy (JBool b) = (\<not> b)"
| "falsy (JNum x) = (x = 0)"
| "falsy (JStr s) = (s = [])"
| "falsy (JArr xs) = False"
| "falsy (JObj kvs) = False"

text \<open>
  \<open>value[key]\<close> on a value that is neither null nor undefined, for the keys the source
  reads (\<open>candidates\<close>, \<open>0\<close>, \<open>content\<close>, \<open>parts\<close>, \<open>text\<close>); \<open>None\<close> is \<open>undefined\<close>.
\<close>

fun getProp :: "json \<Rightarrow> jsstring \<Rightarrow> json option" where
  "getProp (JObj kvs) k = map_of kvs k"
| "getProp (JArr xs) k = (if k = lit ''0'' then (case xs of [] \<Rightarrow> None | x # _ \<Rightarrow> Some x) else None)"
| "getProp (JStr s) k =
     (if k = lit ''0'' then (case s of [] \<Rightarrow> None | c # _ \<Rightarrow> Some (JStr [c])) else None)"
| "getProp JNull k = None"
| "getProp (JBool b) k = None"
| "getProp (JNum x) k = None"

text \<open>Optional chaining \<open>value?.[key]\<close>.\<close>

fun optGet :: "json option \<Rightarrow> jsstring \<Rightarrow> json option" where
  "optGet None k = None"
| "optGet (Some JNull) k = None"
| "optGet (Some v) k = getProp v k"

text \<open>
  The environment: the two settings the pipeline reads, and the network. The outcome
  of the \<open>i\<close>-th outbound request of one invocation is \<open>net i\<close>, whatever was sent: the
  prompts' texts go out and are not modelled, each call is recorded by what it asks for.
\<close>

record env =
  GEMINI_API_KEY :: "jsstring option"
  GEMINI_MODEL :: "jsstring option"

datatype fetchOutcome =
    FetchRejected
  | Response (ok: bool) (status: nat) (body: jsstring)

datatype prompt = TriagePrompt | SimplifyPrompt | TranslatePrompt

record outboundCall =
  callModel :: jsstring
  callPrompt :: prompt
  callTemperature :: rat

datatype error =
    KeyMissing
  | RequestFailed nat jsstring
  | EmptyOutput
  | NonJsonOutput
  | FormatMismatch
  | FetchError
  | SyntaxError
  | TypeError

datatype 'a completion = Returned 'a | Thrown error

definition keyConfigured :: "env \<Rightarrow> bool" where
  "keyConfigured e = (case GEMINI_API_KEY e of None \<Rightarrow> False | Some k \<Rightarrow> k \<noteq> [])"

definition modelName :: "env \<Rightarrow> jsstring" where
  "modelName e = (case GEMINI_MODEL e of None \<Rightarrow> lit ''gemini-2.5-flash'' | Some m \<Rightarrow> m)"

text \<open>
  \<open>data.candidates?.[0]?.content?.parts?.[0]?.text?.trim()\<close>: a TypeError when \<open>data\<close> is
  null or the text is not a string, \<open>None\<close> for \<open>undefined\<close>.
\<close>

definition candidateText :: "json \<Rightarrow> jsstring option completion" where
  "candidateText data =
     (if data = JNull then Thrown TypeError
      else
        (case optGet (optGet (optGet (optGet (optGet (getProp data (lit ''candidates''))
                (lit ''0'')) (lit ''content'')) (lit ''parts'')) (lit ''0'')) (lit ''text'') of
           None \<Rightarrow> Returned None
         | Some JNull \<Rightarrow> Returned None
         | Some (JStr t) \<Rightarrow> Returned (Some (trim t))
         | Some _ \<Rightarrow> Thrown TypeError))"

text \<open>\<open>/\{[\s\S]*\}/\<close>: from the first opening brace to the last closing one.\<close>

definition jsonBlockRegex :: regex where
  "jsonBlockRegex = seqs [chrS CHR ''{'', star (Cls (\<lambda>u. True)), chrS CHR ''}'']"

section \<open>Triage: the rule engine\<close>

datatype triageLevel = RED | YELLOW | GREEN | BLUE

record symptomCheckResponse =
  summary :: jsstring
  triageLevel :: triageLevel
  explanation :: jsstring
  recommendedAction :: jsstring
  disclaimer :: jsstring

text \<open>
  The request of \<open>symptomCheckSchema\<close>; \<open>duration\<close> is \<open>symptomDuration\<close> here, the
  name \<open>duration\<close> being the medicine's below.
\<close>

record symptomCheck =
  symptoms :: jsstring
  age :: "int option"
  symptomDuration :: "jsstring option"
  knownConditions :: "jsstring list option"
  additionalContext :: "jsstring option"

text \<open>What the two gates are given: \<open>normalizedInput\<close> of \<open>runSymptomTriage\<close>.\<close>

record gateInput =
  gateSymptoms :: jsstring
  gateContext :: "jsstring option"

definition INDIA_EMERGENCY_NUMBER :: jsstring where
  "INDIA_EMERGENCY_NUMBER = lit ''112''"

definition DEFAULT_TRIAGE_DISCLAIMER :: jsstring where
  "DEFAULT_TRIAGE_DISCLAIMER =
     lit ''This triage result is not a diagnosis or treatment plan. Please consult a licensed medical professional immediately.''"

definition emergencyKeywords :: "jsstring list" where
  "emergencyKeywords = map lit
     [''chest pain'', ''chest pressure'', ''difficulty breathing'', ''can't breathe'',
      ''cannot breathe'', ''not breathing'', ''unconscious'', ''loss of consciousness'',
      ''severe bleeding'', ''stroke'', ''heart attack'', ''seizure'', ''paralysis'',
      ''severe head injury'', ''suicidal'', ''overdose'', ''anaphylaxis'']"

definition dosageRequestKeywords :: "jsstring list" where
  "dosageRequestKeywords = map lit
     [''dosage'', ''dose'', ''how many mg'', ''how much medicine'', ''prescribe'']"

definition diagnosisRequestKeywords :: "jsstring list" where
  "diagnosisRequestKeywords = map lit
     [''diagnose'', ''diagnosis'', ''what disease do i have'', ''what illness do i have'']"

definition safetyBypassKeywords :: "jsstring list" where
  "safetyBypassKeywords = map lit
     [''ignore safety'', ''ignore your rules'', ''skip safety'', ''bypass safety'']"

definition sanitizeTriageText :: "jsstring \<Rightarrow> jsstring" where
  "sanitizeTriageText v = trim (collapseWhite v)"

definition createRuleBasedRedResponse :: "jsstring \<Rightarrow> symptomCheckResponse" where
  "createRuleBasedRedResponse reason =
     \<lparr>summary = lit ''Potential emergency warning signs were detected in the reported symptoms.'',
      triageLevel = RED,
      explanation = lit ''The message includes emergency indicators ('' @ reason @
        lit '') that can be life-threatening.'',
      recommendedAction = lit ''Call emergency services now ('' @ INDIA_EMERGENCY_NUMBER @
        lit '') or go to the nearest emergency department immediately.'',
      disclaimer = DEFAULT_TRIAGE_DISCLAIMER @ lit '' Do not delay emergency care.''\<rparr>"

definition createRuleBasedSafetyRefusalResponse :: symptomCheckResponse where
  "createRuleBasedSafetyRefusalResponse =
     \<lparr>summary = lit ''The request asks for diagnosis, medication dosage, or unsafe guidance.'',
      triageLevel = YELLOW,
      explanation = lit ''For safety, this assistant cannot provide diagnosis, dosing, or advice that bypasses medical safeguards.'',
      recommendedAction = lit ''Consult a licensed doctor within 24 hours for personalized guidance. If severe symptoms are present, call emergency services immediately.'',
      disclaimer = DEFAULT_TRIAGE_DISCLAIMER\<rparr>"

text \<open>
  Doubles. A finite double that is not negative is a multiple of \<open>2\<^sup>-\<^sup>1\<^sup>0\<^sup>7\<^sup>4\<close> with at
  most 53 significant bits, below \<open>2\<^sup>1\<^sup>0\<^sup>2\<^sup>4\<close>. \<open>toDouble n d\<close> is the double nearest to
  the quotient \<open>n / d\<close>, ties going to the even mantissa: with the quotient counted in
  units of \<open>2\<^sup>-\<^sup>1\<^sup>0\<^sup>7\<^sup>4\<close>, the step between neighbouring doubles is 1 as long as the whole part
  has at most 53 bits (the subnormal numbers and the first normal ones), and doubles with
  each further bit. From \<open>2\<^sup>1\<^sup>0\<^sup>2\<^sup>4\<close> on the result is \<open>Infinity\<close>.
\<close>

datatype double = Finite rat | PlusInfinity

fun bitLength :: "nat \<Rightarrow> nat" where
  "bitLength n = (if n = 0 then 0 else Suc (bitLength (n div 2)))"

declare bitLength.simps [simp del]

definition roundHalfEven :: "nat \<Rightarrow> nat \<Rightarrow> nat" where
  "roundHalfEven n d =
     (let f = n div d; r = n mod d in
      if 2 * r < d then f else if d < 2 * r then f + 1 else if even f then f else f + 1)"

definition mantissaBits :: nat where
  "mantissaBits = 53"

definition unitExponent :: nat where
  "unitExponent = 1074"

definition toDouble :: "nat \<Rightarrow> nat \<Rightarrow> double" where
  "toDouble n d =
     (let units = n * 2 ^ unitExponent;
          step = 2 ^ (bitLength (units div d) - mantissaBits);
          m = roundHalfEven units (d * step) * step
      in if m < 2 ^ (1024 + unitExponent) then Finite (of_nat m / 2 ^ unitExponent)
         else PlusInfinity)"

text \<open>\<open>value < bound\<close> on a double that is not NaN.\<close>

definition isBelow :: "double \<Rightarrow> rat \<Rightarrow> bool" where
  "isBelow v y = (case v of Finite x \<Rightarrow> x < y | PlusInfinity \<Rightarrow> False)"

text \<open>
  \<open>Number(text)\<close> on a text of the shape \<open>digits\<close> or \<open>digits.digits\<close>, the only shapes
  the pattern below captures: the double nearest to the decimal. \<open>None\<close> is NaN.
\<close>

definition digitsValue :: "jsstring \<Rightarrow> nat" where
  "digitsValue ds = foldl (\<lambda>a d. 10 * a + (d - 48)) 0 ds"

definition numberOfDecimal :: "jsstring \<Rightarrow> double option" where
  "numberOfDecimal t =
     (let whole = takeWhile isDigit t; r = dropWhile isDigit t in
      if whole = [] then None
      else (case r of
              [] \<Rightarrow> Some (toDouble (digitsValue whole) 1)
            | d # fr \<Rightarrow>
                if d = 46 \<and> list_all isDigit fr
                then Some (toDouble (digitsValue (whole @ fr)) (10 ^ length fr))
                else None))"

text \<open>\<open>/(?:spo2|oxygen(?: level)?|o2)\s*(?:is|:|=|at)?\s*(\d{2,3}(?:\.\d+)?)/i\<close>\<close>

definition oxygenRegex :: regex where
  "oxygenRegex = seqs
     [alts [strI ''spo2'', Seq (strI ''oxygen'') (opt (strI '' level'')), strI ''o2''],
      star (Cls isWhite),
      opt (alts [strI ''is'', strI '':'', strI ''='', strI ''at'']),
      star (Cls isWhite),
      Grp 1 (Seq (Rep 2 (Some 3) (Cls isDigit)) (opt (Seq (strI ''.'') (plus (Cls isDigit)))))]"

definition combinedText :: "(nat \<Rightarrow> jsstring) \<Rightarrow> gateInput \<Rightarrow> jsstring" where
  "combinedText lc input =
     toLowerCase lc (gateSymptoms input @ lit '' '' @
       (case gateContext input of None \<Rightarrow> [] | Some c \<Rightarrow> c))"

definition ruleBasedEmergencyCheck :: "(nat \<Rightarrow> jsstring) \<Rightarrow> gateInput \<Rightarrow> jsstring option" where
  "ruleBasedEmergencyCheck lc input =
     (let combined = combinedText lc input in
      case find (\<lambda>keyword. includesStr combined keyword) emergencyKeywords of
        Some matchedKeyword \<Rightarrow> Some matchedKeyword
      | None \<Rightarrow>
          (case exec oxygenRegex combined of
             None \<Rightarrow> None
           | Some oxygenMatch \<Rightarrow>
               (case groups oxygenMatch 1 of
                  None \<Rightarrow> None
                | Some g \<Rightarrow>
                    (case numberOfDecimal g of
                       None \<Rightarrow> None
                     | Some oxygenValue \<Rightarrow>
                         if isBelow oxygenValue 90 then Some (lit ''oxygen level below 90%'')
                         else None))))"

definition ruleBasedSafetyRefusalCheck :: "(nat \<Rightarrow> jsstring) \<Rightarrow> gateInput \<Rightarrow> bool" where
  "ruleBasedSafetyRefusalCheck lc input =
     (let combined = combinedText lc input;
          asksForDosage = list_ex (\<lambda>keyword. includesStr combined keyword) dosageRequestKeywords;
          asksForDiagnosis = list_ex (\<lambda>keyword. includesStr combined keyword) diagnosisRequestKeywords;
          asksToBypassSafety = list_ex (\<lambda>keyword. includesStr combined keyword) safetyBypassKeywords
      in asksForDosage \<or> asksForDiagnosis \<or> asksToBypassSafety)"


section \<open>Triage: schema and pipeline\<close>

text \<open>
  The validators of zod: \<open>z.string().min(lo).max(hi)\<close> on a property of an object, and
  the key check of \<open>.strict()\<close>.
\<close>

definition strField :: "(jsstring \<times> json) list \<Rightarrow> string \<Rightarrow> nat \<Rightarrow> nat \<Rightarrow> jsstring option" where
  "strField kvs name lo hi =
     (case map_of kvs (lit name) of
        Some (JStr s) \<Rightarrow> if lo \<le> length s \<and> length s \<le> hi then Some s else None
      | _ \<Rightarrow> None)"

definition strictKeys :: "(jsstring \<times> json) list \<Rightarrow> string list \<Rightarrow> bool" where
  "strictKeys kvs names = list_all (\<lambda>k. k \<in> set (map lit names)) (map fst kvs)"

definition triageLevelSchema :: "json option \<Rightarrow> triageLevel option" where
  "triageLevelSchema j =
     (case j of
        Some (JStr s) \<Rightarrow>
          if s = lit ''RED'' then Some RED
          else if s = lit ''YELLOW'' then Some YELLOW
          else if s = lit ''GREEN'' then Some GREEN
          else if s = lit ''BLUE'' then Some BLUE
          else None
      | _ \<Rightarrow> None)"

text \<open>\<open>symptomCheckResponseSchema.safeParse\<close>; \<open>None\<close> is \<open>success: false\<close>.\<close>

definition symptomCheckResponseSchema :: "json \<Rightarrow> symptomCheckResponse option" where
  "symptomCheckResponseSchema j =
     (case j of
        JObj kvs \<Rightarrow>
          if \<not> strictKeys kvs
               [''summary'', ''triageLevel'', ''explanation'', ''recommendedAction'', ''disclaimer'']
          then None
          else
            Option.bind (strField kvs ''summary'' 5 600) (\<lambda>s.
            Option.bind (triageLevelSchema (map_of kvs (lit ''triageLevel''))) (\<lambda>l.
            Option.bind (strField kvs ''explanation'' 5 1000) (\<lambda>e.
            Option.bind (strField kvs ''recommendedAction'' 5 600) (\<lambda>a.
            Option.bind (strField kvs ''disclaimer'' 10 400) (\<lambda>d.
              Some \<lparr>summary = s, triageLevel = l, explanation = e,
                    recommendedAction = a, disclaimer = d\<rparr>)))))
      | _ \<Rightarrow> None)"

definition normalizedInput :: "symptomCheck \<Rightarrow> gateInput" where
  "normalizedInput input =
     \<lparr>gateSymptoms = sanitizeTriageText (symptoms input),
      gateContext =
        (case additionalContext input of
           None \<Rightarrow> None
         | Some c \<Rightarrow> if c = [] then None else Some (sanitizeTriageText c))\<rparr>"

text \<open>
  The model stage of \<open>runSymptomTriage\<close>, from the \<open>fetch\<close> on: every failure is
  thrown, there is no retry.
\<close>

definition triageValidate :: "json \<Rightarrow> symptomCheckResponse completion" where
  "triageValidate parsedJson =
     (case symptomCheckResponseSchema parsedJson of
        None \<Rightarrow> Thrown FormatMismatch
      | Some r \<Rightarrow> Returned r)"

definition triageModelStage ::
  "(jsstring \<Rightarrow> json option) \<Rightarrow> fetchOutcome \<Rightarrow> symptomCheckResponse completion" where
  "triageModelStage jp outcome =
     (case outcome of
        FetchRejected \<Rightarrow> Thrown FetchError
      | Response isOk st bd \<Rightarrow>
          if \<not> isOk then Thrown (RequestFailed st bd)
          else
            (case jp bd of
               None \<Rightarrow> Thrown SyntaxError
             | Some data \<Rightarrow>
                 (case candidateText data of
                    Thrown e \<Rightarrow> Thrown e
                  | Returned None \<Rightarrow> Thrown EmptyOutput
                  | Returned (Some rawText) \<Rightarrow>
                      if rawText = [] then Thrown EmptyOutput
                      else
                        (case jp rawText of
                           Some parsedJson \<Rightarrow> triageValidate parsedJson
                         | None \<Rightarrow>
                             (case exec jsonBlockRegex rawText of
                                None \<Rightarrow> Thrown NonJsonOutput
                              | Some m \<Rightarrow>
                                  (case jp (matched m) of
                                     None \<Rightarrow> Thrown SyntaxError
                                   | Some parsedJson \<Rightarrow> triageValidate parsedJson))))))"

definition runSymptomTriage ::
  "env \<Rightarrow> (jsstring \<Rightarrow> json option) \<Rightarrow> (nat \<Rightarrow> jsstring) \<Rightarrow> (nat \<Rightarrow> fetchOutcome) \<Rightarrow>
   symptomCheck \<Rightarrow> symptomCheckResponse completion \<times> outboundCall list" where
  "runSymptomTriage e jp lc net input =
     (let normalized = normalizedInput input in
      case ruleBasedEmergencyCheck lc normalized of
        Some emergencyReason \<Rightarrow> (Returned (createRuleBasedRedResponse emergencyReason), [])
      | None \<Rightarrow>
          if ruleBasedSafetyRefusalCheck lc normalized
          then (Returned createRuleBasedSafetyRefusalResponse, [])
          else if \<not> keyConfigured e then (Thrown KeyMissing, [])
          else
            (triageModelStage jp (net 0),
             [\<lparr>callModel = modelName e, callPrompt = TriagePrompt, callTemperature = 3 / 10\<rparr>]))"

section \<open>The prescription simplifier: data\<close>

datatype prescriptionLanguage = EN | HI | TA | BN

datatype timingSlot =
    MORNING_BEFORE_FOOD
  | MORNING_AFTER_FOOD
  | AFTERNOON_BEFORE_FOOD
  | AFTERNOON_AFTER_FOOD
  | NIGHT_BEFORE_FOOD
  | NIGHT_AFTER_FOOD
  | BEDTIME
  | AS_NEEDED
  | UNSPECIFIED

record simplifiedMedicine =
  medicineName :: jsstring
  dosage :: jsstring
  duration :: jsstring
  timingSlots :: "timingSlot list"
  instructions :: "jsstring list"

record simplifiedSummary =
  languageCode :: prescriptionLanguage
  languageLabel :: jsstring
  doctorExplanation :: jsstring
  medicines :: "simplifiedMedicine list"
  warnings :: "jsstring list"
  hydrationTips :: "jsstring list"
  generalAdvice :: "jsstring list"

text \<open>The request of \<open>prescriptionSimplifySchema\<close>; its field \<open>text\<close> is \<open>rxText\<close> here.\<close>

record simplifyRequest =
  rxText :: jsstring
  language :: prescriptionLanguage

definition prescriptionLanguageLabels :: "prescriptionLanguage \<Rightarrow> jsstring" where
  "prescriptionLanguageLabels l =
     (case l of EN \<Rightarrow> lit ''English'' | HI \<Rightarrow> lit ''Hindi'' | TA \<Rightarrow> lit ''Tamil''
      | BN \<Rightarrow> lit ''Bengali'')"

text \<open>
  \<open>prescriptionFallbackByLanguage\<close>: the phrases of the deterministic extractor. The
  Hindi, Tamil and Bengali literals are given by their UTF-16 code units (Devanagari is
  2304-2431, Tamil 2944-3071, Bengali 2432-2559). The field \<open>generalAdvice\<close> of the
  table is \<open>generalAdviceText\<close> here.
\<close>

record fallbackPhrases =
  defaultMedicine :: jsstring
  defaultDosage :: jsstring
  defaultDuration :: jsstring
  useDirective :: "jsstring \<Rightarrow> jsstring \<Rightarrow> jsstring"
  followSchedule :: "jsstring \<Rightarrow> jsstring"
  takeAfterFood :: jsstring
  takeBeforeFood :: jsstring
  warningEmptyStomach :: jsstring
  warningGeneric :: jsstring
  hydrationTip :: jsstring
  generalAdviceText :: jsstring

definition fallbackEN :: fallbackPhrases where
  "fallbackEN =
    \<lparr>defaultMedicine =
        lit ''Medicine'',
      defaultDosage =
        lit ''As prescribed'',
      defaultDuration =
        lit ''As advised'',
      useDirective =
        (\<lambda>medicineName dosage. lit ''Use '' @ medicineName @ lit '' '' @ dosage @ lit '' as directed by your doctor.''),
      followSchedule =
        (\<lambda>duration. lit ''Follow the schedule for '' @ duration @ lit ''.''),
      takeAfterFood =
        lit ''Take after food.'',
      takeBeforeFood =
        lit ''Take before food.'',
      warningEmptyStomach =
        lit ''Do not take on an empty stomach.'',
      warningGeneric =
        lit ''Follow warning instructions carefully.'',
      hydrationTip =
        lit ''Drink more water.'',
      generalAdviceText =
        lit ''Consult a licensed doctor if symptoms worsen or if side effects appear.''\<rparr>"

definition fallbackHI :: fallbackPhrases where
  "fallbackHI =
    \<lparr>defaultMedicine =
        [2342, 2357, 2366],
      defaultDosage =
        [2337, 2377, 2325, 2381, 2335, 2352, 32, 2325, 2375, 32, 2309, 2344, 2369, 2360,
          2366, 2352],
      defaultDuration =
        [2337, 2377, 2325, 2381, 2335, 2352, 32, 2325, 2368, 32, 2360, 2354, 2366, 2361,
          32, 2340, 2325],
      useDirective =
        (\<lambda>medicineName dosage. medicineName @ lit '' '' @ dosage @ [32, 2337, 2377, 2325, 2381, 2335, 2352, 32, 2325, 2375, 32, 2344, 2367, 2352,
          2381, 2342, 2375, 2358, 2366, 2344, 2369, 2360, 2366, 2352, 32, 2354, 2375,
          2306, 2404]),
      followSchedule =
        (\<lambda>duration. duration @ [32, 2340, 2325, 32, 2342, 2357, 2366, 32, 2360, 2350, 2351, 32, 2346, 2352, 32,
          2354, 2375, 2306, 2404]),
      takeAfterFood =
        [2326, 2366, 2344, 2366, 32, 2326, 2366, 2344, 2375, 32, 2325, 2375, 32, 2348,
          2366, 2342, 32, 2354, 2375, 2306, 2404],
      takeBeforeFood =
        [2326, 2366, 2344, 2366, 32, 2326, 2366, 2344, 2375, 32, 2360, 2375, 32, 2346,
          2361, 2354, 2375, 32, 2354, 2375, 2306, 2404],
      warningEmptyStomach =
        [2326, 2366, 2354, 2368, 32, 2346, 2375, 2335, 32, 2342, 2357, 2366, 32, 2344,
          32, 2354, 2375, 2306, 2404],
      warningGeneric =
        [2360, 2366, 2357, 2343, 2366, 2344, 2368, 32, 2360, 2306, 2348, 2306, 2343,
          2368, 32, 2344, 2367, 2352, 2381, 2342, 2375, 2358, 32, 2343, 2381, 2351, 2366,
          2344, 32, 2360, 2375, 32, 2350, 2366, 2344, 2375, 2306, 2404],
      hydrationTip =
        [2346, 2352, 2381, 2351, 2366, 2346, 2381, 2340, 32, 2346, 2366, 2344, 2368, 32,
          2346, 2367, 2319, 2306, 2404],
      generalAdviceText =
        [2354, 2325, 2381, 2359, 2339, 32, 2348, 2338, 2364, 2375, 2306, 32, 2351, 2366,
          32, 2342, 2369, 2359, 2381, 2346, 2381, 2352, 2349, 2366, 2357, 32, 2361, 2379,
          2306, 32, 2340, 2379, 32, 2340, 2369, 2352, 2306, 2340, 32, 2337, 2377, 2325,
          2381, 2335, 2352, 32, 2360, 2375, 32, 2360, 2306, 2346, 2352, 2381, 2325, 32,
          2325, 2352, 2375, 2306, 2404]\<rparr>"

definition fallbackTA :: fallbackPhrases where
  "fallbackTA =
    \<lparr>defaultMedicine =
        [2990, 2992, 3009, 2984, 3021, 2980, 3009],
      defaultDosage =
        [2990, 2992, 3009, 2980, 3021, 2980, 3009, 2997, 2992, 3021, 32, 2965, 3010,
          2993, 3007, 2991, 2986, 2975, 3007],
      defaultDuration =
        [2990, 2992, 3009, 2980, 3021, 2980, 3009, 2997, 2992, 3021, 32, 2965, 3010,
          2993, 3009, 2990, 3021, 32, 2997, 2992, 3016],
      useDirective =
        (\<lambda>medicineName dosage. medicineName @ lit '' '' @ dosage @ [32, 2990, 2992, 3009, 2980, 3021, 2980, 3009, 2997, 2992, 3021, 32, 2965, 3010,
          2993, 3007, 2991, 2986, 2975, 3007, 32, 2958, 2975, 3009, 2980, 3021, 2980,
          3009, 2965, 3021, 2965, 3018, 2995, 3021, 2995, 2997, 3009, 2990, 3021, 46]),
      followSchedule =
        (\<lambda>duration. duration @ [32, 2997, 2992, 3016, 32, 2990, 2992, 3009, 2984, 3021, 2980, 3016, 32, 2984,
          3015, 2992, 2980, 3021, 2980, 3007, 2993, 3021, 2965, 3009, 32, 2958, 2975,
          3009, 2980, 3021, 2980, 3009, 2965, 3021, 2965, 3018, 2995, 3021, 2995, 2997,
          3009, 2990, 3021, 46]),
      takeAfterFood =
        [2953, 2979, 2997, 3009, 2965, 3021, 2965, 3009, 2986, 3021, 32, 2986, 3007,
          2993, 2965, 3009, 32, 2958, 2975, 3009, 2980, 3021, 2980, 3009, 2965, 3021,
          2965, 3018, 2995, 3021, 2995, 2997, 3009, 2990, 3021, 46],
      takeBeforeFood =
        [2953, 2979, 2997, 3009, 2965, 3021, 2965, 3009, 32, 2990, 3009, 2985, 3021, 32,
          2958, 2975, 3009, 2980, 3021, 2980, 3009, 2965, 3021, 2965, 3018, 2995, 3021,
          2995, 2997, 3009, 2990, 3021, 46],
      warningEmptyStomach =
        [2997, 2991, 3007, 2993, 3009, 32, 2965, 3006, 2994, 3007, 2991, 3006, 2965, 32,
          2951, 2992, 3009, 2965, 3021, 2965, 3009, 2990, 3021, 2986, 3019, 2980, 3009,
          32, 2958, 2975, 3009, 2980, 3021, 2980, 3009, 2965, 3021, 2965, 3018, 2995,
          3021, 2995, 32, 2997, 3015, 2979, 3021, 2975, 3006, 2990, 3021, 46],
      warningGeneric =
        [2958, 2970, 3021, 2970, 2992, 3007, 2965, 3021, 2965, 3016, 32, 2997, 2996,
          3007, 2990, 3009, 2993, 3016, 2965, 2995, 3016, 32, 2965, 2997, 2985, 2990,
          3006, 2965, 32, 2986, 3007, 2985, 3021, 2986, 2993, 3021, 2993, 2997, 3009,
          2990, 3021, 46],
      hydrationTip =
        [2949, 2980, 3007, 2965, 2990, 3006, 2965, 32, 2980, 2979, 3021, 2979, 3008,
          2992, 3021, 32, 2965, 3009, 2975, 3007, 2965, 3021, 2965, 2997, 3009, 2990,
          3021, 46],
      generalAdviceText =
        [2949, 2993, 3007, 2965, 3009, 2993, 3007, 2965, 2995, 3021, 32, 2990, 3019,
          2970, 2990, 2975, 3016, 2984, 3021, 2980, 3006, 2994, 3021, 32, 2949, 2994,
          3021, 2994, 2980, 3009, 32, 2986, 2965, 3021, 2965, 2997, 3007, 2995, 3016,
          2997, 3009, 2965, 2995, 3021, 32, 2951, 2992, 3009, 2984, 3021, 2980, 3006,
          2994, 3021, 32, 2990, 2992, 3009, 2980, 3021, 2980, 3009, 2997, 2992, 3016, 32,
          2949, 2979, 3009, 2965, 2997, 3009, 2990, 3021, 46]\<rparr>"

definition fallbackBN :: fallbackPhrases where
  "fallbackBN =
    \<lparr>defaultMedicine =
        [2451, 2487, 2497, 2471],
      defaultDosage =
        [2465, 2494, 2453, 2509, 2468, 2494, 2480, 2503, 2480, 32, 2472, 2495, 2480,
          2509, 2470, 2503, 2486, 32, 2437, 2472, 2497, 2479, 2494, 2479, 2492, 2496],
      defaultDuration =
        [2465, 2494, 2453, 2509, 2468, 2494, 2480, 2503, 2480, 32, 2474, 2480, 2494,
          2478, 2480, 2509, 2486, 32, 2437, 2472, 2497, 2479, 2494, 2479, 2492, 2496],
      useDirective =
        (\<lambda>medicineName dosage. medicineName @ lit '' '' @ dosage @ [32, 2465, 2494, 2453, 2509, 2468, 2494, 2480, 2503, 2480, 32, 2472, 2495, 2480,
          2509, 2470, 2503, 2486, 32, 2437, 2472, 2497, 2479, 2494, 2479, 2492, 2496, 32,
          2488, 2503, 2476, 2472, 32, 2453, 2480, 2497, 2472, 2404]),
      followSchedule =
        (\<lambda>duration. duration @ [32, 2474, 2480, 2509, 2479, 2472, 2509, 2468, 32, 2488, 2478, 2479, 2492, 2478,
          2468, 2507, 32, 2451, 2487, 2497, 2471, 32, 2472, 2495, 2472, 2404]),
      takeAfterFood =
        [2454, 2494, 2451, 2479, 2492, 2494, 2480, 32, 2474, 2480, 2503, 32, 2488, 2503,
          2476, 2472, 32, 2453, 2480, 2497, 2472, 2404],
      takeBeforeFood =
        [2454, 2494, 2451, 2479, 2492, 2494, 2480, 32, 2438, 2455, 2503, 32, 2488, 2503,
          2476, 2472, 32, 2453, 2480, 2497, 2472, 2404],
      warningEmptyStomach =
        [2454, 2494, 2482, 2495, 32, 2474, 2503, 2463, 2503, 32, 2451, 2487, 2497, 2471,
          32, 2454, 2494, 2476, 2503, 2472, 32, 2472, 2494, 2404],
      warningGeneric =
        [2488, 2468, 2480, 2509, 2453, 2468, 2494, 2480, 32, 2472, 2495, 2480, 2509,
          2470, 2503, 2486, 2455, 2497, 2482, 2495, 32, 2478, 2503, 2472, 2503, 32, 2458,
          2482, 2497, 2472, 2404],
      hydrationTip =
        [2474, 2480, 2509, 2479, 2494, 2474, 2509, 2468, 32, 2474, 2494, 2472, 2495, 32,
          2474, 2494, 2472, 32, 2453, 2480, 2497, 2472, 2404],
      generalAdviceText =
        [2482, 2453, 2509, 2487, 2467, 32, 2476, 2494, 2465, 2492, 2482, 2503, 32, 2476,
          2494, 32, 2474, 2494, 2480, 2509, 2486, 2509, 2476, 2474, 2509, 2480, 2468,
          2495, 2453, 2509, 2480, 2495, 2479, 2492, 2494, 32, 2489, 2482, 2503, 32, 2470,
          2509, 2480, 2497, 2468, 32, 2465, 2494, 2453, 2509, 2468, 2494, 2480, 2503,
          2480, 32, 2488, 2457, 2509, 2455, 2503, 32, 2479, 2507, 2455, 2494, 2479, 2507,
          2455, 32, 2453, 2480, 2497, 2472, 2404]\<rparr>"

definition prescriptionFallbackByLanguage :: "prescriptionLanguage \<Rightarrow> fallbackPhrases" where
  "prescriptionFallbackByLanguage l =
     (case l of EN \<Rightarrow> fallbackEN | HI \<Rightarrow> fallbackHI | TA \<Rightarrow> fallbackTA | BN \<Rightarrow> fallbackBN)"

section \<open>The deterministic extractor\<close>

definition buildPrescriptionTimingSlot :: "string \<Rightarrow> string \<Rightarrow> timingSlot" where
  "buildPrescriptionTimingSlot part meal =
     (if part = ''MORNING'' then
        (if meal = ''BEFORE_FOOD'' then MORNING_BEFORE_FOOD
         else if meal = ''AFTER_FOOD'' then MORNING_AFTER_FOOD
         else MORNING_AFTER_FOOD)
      else if part = ''AFTERNOON'' then
        (if meal = ''BEFORE_FOOD'' then AFTERNOON_BEFORE_FOOD
         else if meal = ''AFTER_FOOD'' then AFTERNOON_AFTER_FOOD
         else AFTERNOON_AFTER_FOOD)
      else if meal = ''BEFORE_FOOD'' then NIGHT_BEFORE_FOOD
      else if meal = ''AFTER_FOOD'' then NIGHT_AFTER_FOOD
      else NIGHT_AFTER_FOOD)"

text \<open>\<open>Array.from(new Set(xs))\<close>: the first occurrence of each element, in order.\<close>

fun uniqueInOrder :: "'a list \<Rightarrow> 'a list" where
  "uniqueInOrder [] = []"
| "uniqueInOrder (x # xs) = x # uniqueInOrder (filter (\<lambda>y. y \<noteq> x) xs)"

text \<open>A word of a pattern between two \<open>\b\<close>, matched as it is written.\<close>

definition wordS :: "regex \<Rightarrow> regex" where
  "wordS r = seqs [WordB, r, WordB]"

definition foodMealMeals :: regex where
  "foodMealMeals = alts [strS ''food'', strS ''meal'', strS ''meals'']"

text \<open>The patterns of \<open>extractTimingSlotsFromText\<close>, in the order of the source.\<close>

definition asNeededRegex :: regex where
  "asNeededRegex = alts [wordS (strS ''as needed''), wordS (strS ''when needed''), wordS (strS ''sos'')]"

definition afterFoodRegex :: regex where
  "afterFoodRegex = alts [seqs [WordB, strS ''after '', Grp 1 foodMealMeals, WordB],
                          wordS (strS ''post meal'')]"

definition beforeFoodRegex :: regex where
  "beforeFoodRegex = alts [seqs [WordB, strS ''before '', Grp 1 foodMealMeals, WordB],
                           wordS (strS ''empty stomach'')]"

definition morningRegex :: regex where
  "morningRegex = wordS (strS ''morning'')"

definition afternoonRegex :: regex where
  "afternoonRegex = alts [wordS (strS ''afternoon''), wordS (strS ''noon'')]"

definition nightRegex :: regex where
  "nightRegex = alts [wordS (strS ''night''), wordS (strS ''evening'')]"

definition thriceRegex :: regex where
  "thriceRegex = alts
     [wordS (strS ''thrice daily''),
      seqs [WordB, strS ''three times '', Grp 1 (alts [strS ''daily'', strS ''a day'']), WordB],
      wordS (strS ''tid'')]"

definition twiceRegex :: regex where
  "twiceRegex = alts
     [wordS (strS ''twice daily''),
      seqs [WordB, strS ''two times '', Grp 1 (alts [strS ''daily'', strS ''a day'']), WordB],
      wordS (strS ''bid'')]"

definition onceRegex :: regex where
  "onceRegex = alts [wordS (strS ''once daily''), wordS (strS ''once a day''), wordS (strS ''od'')]"

definition bedtimeRegex :: regex where
  "bedtimeRegex = alts [wordS (strS ''before bed''), wordS (strS ''bedtime'')]"

definition extractTimingSlotsFromText :: "(nat \<Rightarrow> jsstring) \<Rightarrow> jsstring \<Rightarrow> timingSlot list" where
  "extractTimingSlotsFromText lc t =
     (let normalized = toLowerCase lc t in
      if testRe asNeededRegex normalized then [AS_NEEDED]
      else
        (let meal = (if testRe afterFoodRegex normalized then ''AFTER_FOOD''
                     else if testRe beforeFoodRegex normalized then ''BEFORE_FOOD''
                     else ''NONE'');
             parts0 = (if testRe morningRegex normalized then [''MORNING''] else []) @
                      (if testRe afternoonRegex normalized then [''AFTERNOON''] else []) @
                      (if testRe nightRegex normalized then [''NIGHT''] else []);
             parts = (if parts0 = [] then
                        (if testRe thriceRegex normalized then [''MORNING'', ''AFTERNOON'', ''NIGHT'']
                         else if testRe twiceRegex normalized then [''MORNING'', ''NIGHT'']
                         else if testRe onceRegex normalized then [''MORNING'']
                         else [])
                      else parts0);
             slots = map (\<lambda>part. buildPrescriptionTimingSlot part meal) parts @
                     (if testRe bedtimeRegex normalized then [BEDTIME] else [])
         in if slots = [] then [UNSPECIFIED] else uniqueInOrder slots))"

text \<open>The patterns of \<open>fallbackPrescriptionSummary\<close>, in the order of the source.\<close>

definition isNameChar :: "nat \<Rightarrow> bool" where
  "isNameChar c \<longleftrightarrow> isLatin c \<or> isDigit c \<or> c = 45"

definition nameWord :: regex where
  "nameWord = Seq (Cls isLatin) (star (Cls isNameChar))"

definition formPrefix :: regex where
  "formPrefix = alts [strI ''take'', Seq (strI ''tab'') (opt (strI ''let'')), strI ''capsule'',
                      strI ''cap'', strI ''syrup'']"

text \<open>
  \<open>/(?:take|tab(?:let)?|capsule|cap|syrup)?\s*([A-Za-z][A-Za-z0-9-]*(?:\s+[A-Za-z][A-Za-z0-9-]*){0,3})\s+(\d+\s?(?:mg|ml|mcg|g))/i\<close>
\<close>

definition medicineRegex :: regex where
  "medicineRegex = seqs
     [opt formPrefix,
      star (Cls isWhite),
      Grp 1 (Seq nameWord (Rep 0 (Some 3) (Seq (plus (Cls isWhite)) nameWord))),
      plus (Cls isWhite),
      Grp 2 (seqs [plus (Cls isDigit), opt (Cls isWhite),
                   alts [strI ''mg'', strI ''ml'', strI ''mcg'', strI ''g'']])]"

text \<open>\<open>/^(take|tab(?:let)?|capsule|cap|syrup)\s+/i\<close>\<close>

definition leadingFormRegex :: regex where
  "leadingFormRegex = seqs [Bol, Grp 1 formPrefix, plus (Cls isWhite)]"

text \<open>\<open>/\bfor\s+(\d+\s*(?:day|days|week|weeks|month|months))\b/i\<close>\<close>

definition durationUnit :: regex where
  "durationUnit = alts [strI ''day'', strI ''days'', strI ''week'', strI ''weeks'',
                        strI ''month'', strI ''months'']"

definition durationRegex :: regex where
  "durationRegex = seqs
     [WordB, strI ''for'', plus (Cls isWhite),
      Grp 1 (seqs [plus (Cls isDigit), star (Cls isWhite), durationUnit]),
      WordB]"

text \<open>\<open>/\b(empty stomach|avoid empty stomach)\b/\<close> and \<open>/\bdo not\b|\bdon't\b|\bavoid\b/\<close>\<close>

definition emptyStomachRegex :: regex where
  "emptyStomachRegex =
     seqs [WordB, Grp 1 (alts [strS ''empty stomach'', strS ''avoid empty stomach'']), WordB]"

definition avoidRegex :: regex where
  "avoidRegex = alts [wordS (strS ''do not''), wordS (strS ''don't''), wordS (strS ''avoid'')]"

text \<open>\<open>/\bdrink\b.*\bwater\b|\bhydrat/\<close>; the dot is any unit but a line terminator.\<close>

definition isLineTerminator :: "nat \<Rightarrow> bool" where
  "isLineTerminator c \<longleftrightarrow> c = 10 \<or> c = 13 \<or> c = 8232 \<or> c = 8233"

definition notLineTerminator :: "nat \<Rightarrow> bool" where
  "notLineTerminator c \<longleftrightarrow> \<not> isLineTerminator c"

definition hydrationRegex :: regex where
  "hydrationRegex = alts
     [seqs [WordB, strS ''drink'', WordB, star (Cls notLineTerminator), WordB, strS ''water'', WordB],
      seqs [WordB, strS ''hydrat'']]"

text \<open>\<open>/\bafter (food|meal|meals)\b/\<close> and \<open>/\bbefore (food|meal|meals)\b/\<close>\<close>

definition afterMealRegex :: regex where
  "afterMealRegex = seqs [WordB, strS ''after '', Grp 1 foodMealMeals, WordB]"

definition beforeMealRegex :: regex where
  "beforeMealRegex = seqs [WordB, strS ''before '', Grp 1 foodMealMeals, WordB]"

text \<open>
  \<open>/\b(?:once|twice|thrice)\s+(?:daily|a day|per day)\b|\b\d+\s*(?:times?|x)\s*(?:a|per)?\s*day\b|\b(?:od|bd|bid|tid)\b/i\<close>
\<close>

definition frequencyRegex :: regex where
  "frequencyRegex = alts
     [seqs [WordB, alts [strI ''once'', strI ''twice'', strI ''thrice''], plus (Cls isWhite),
            alts [strI ''daily'', strI ''a day'', strI ''per day''], WordB],
      seqs [WordB, plus (Cls isDigit), star (Cls isWhite),
            alts [Seq (strI ''time'') (opt (strI ''s'')), strI ''x''], star (Cls isWhite),
            opt (alts [strI ''a'', strI ''per'']), star (Cls isWhite), strI ''day'', WordB],
      seqs [WordB, alts [strI ''od'', strI ''bd'', strI ''bid'', strI ''tid''], WordB]]"

text \<open>\<open>/\bqty(?:uantity)?\s*:?\s*(\d+)\b/i\<close>\<close>

definition qtyRegex :: regex where
  "qtyRegex = seqs
     [WordB, strI ''qty'', opt (strI ''uantity''), star (Cls isWhite), opt (strI '':''),
      star (Cls isWhite), Grp 1 (plus (Cls isDigit)), WordB]"

text \<open>\<open>/\bif\s+[^.]+/i\<close>\<close>

definition notDot :: "nat \<Rightarrow> bool" where
  "notDot c \<longleftrightarrow> c \<noteq> 46"

definition conditionRegex :: regex where
  "conditionRegex = seqs [WordB, strI ''if'', plus (Cls isWhite), plus (Cls notDot)]"

text \<open>\<open>/\binstructions?\s*:\s*([^.;]+)/i\<close>\<close>

definition notDotSemicolon :: "nat \<Rightarrow> bool" where
  "notDotSemicolon c \<longleftrightarrow> c \<noteq> 46 \<and> c \<noteq> 59"

definition explicitInstructionRegex :: regex where
  "explicitInstructionRegex = seqs
     [WordB, strI ''instruction'', opt (strI ''s''), star (Cls isWhite), strI '':'',
      star (Cls isWhite), Grp 1 (plus (Cls notDotSemicolon))]"

text \<open>\<open>/\b\d+\s*(?:tablet|tab|capsule|cap|ml|drop|drops)\b/i\<close>\<close>

definition tabletCountRegex :: regex where
  "tabletCountRegex = seqs
     [WordB, plus (Cls isDigit), star (Cls isWhite),
      alts [strI ''tablet'', strI ''tab'', strI ''capsule'', strI ''cap'', strI ''ml'',
            strI ''drop'', strI ''drops''],
      WordB]"

text \<open>\<open>str.replace(re, "")\<close> for a pattern without the \<open>g\<close> flag: the first match goes.\<close>

definition removeFirst :: "regex \<Rightarrow> jsstring \<Rightarrow> jsstring" where
  "removeFirst r s =
     (case exec r s of
        None \<Rightarrow> s
      | Some m \<Rightarrow> take (index m) s @ drop (index m + length (matched m)) s)"

text \<open>\<open>value || fallback\<close> on strings, \<open>None\<close> being \<open>undefined\<close>.\<close>

definition orElse :: "jsstring option \<Rightarrow> jsstring \<Rightarrow> jsstring" where
  "orElse v d = (case v of None \<Rightarrow> d | Some s \<Rightarrow> if s = [] then d else s)"

text \<open>\<open>match?.[i]\<close>\<close>

definition groupOf :: "regmatch option \<Rightarrow> nat \<Rightarrow> jsstring option" where
  "groupOf m i = (case m of None \<Rightarrow> None | Some r \<Rightarrow> groups r i)"

definition wholeOf :: "regmatch option \<Rightarrow> jsstring option" where
  "wholeOf m = map_option matched m"

text \<open>\<open>if (value) instructions.push(f(value))\<close>\<close>

definition pushIf :: "jsstring option \<Rightarrow> (jsstring \<Rightarrow> jsstring) \<Rightarrow> jsstring list" where
  "pushIf v f = (case v of None \<Rightarrow> [] | Some s \<Rightarrow> if s = [] then [] else [f s])"

text \<open>\<open>segments.join(" ")\<close>\<close>

fun joinSpace :: "jsstring list \<Rightarrow> jsstring" where
  "joinSpace [] = []"
| "joinSpace [x] = x"
| "joinSpace (x # y # ys) = x @ 32 # joinSpace (y # ys)"

definition extractInstructions :: "fallbackPhrases \<Rightarrow> jsstring \<Rightarrow> jsstring \<Rightarrow> jsstring list" where
  "extractInstructions fallbackText t lower =
     (if testRe afterMealRegex lower then [takeAfterFood fallbackText] else []) @
     (if testRe beforeMealRegex lower then [takeBeforeFood fallbackText] else []) @
     pushIf (wholeOf (exec frequencyRegex t)) trim @
     pushIf (groupOf (exec qtyRegex t) 1) (\<lambda>q. lit ''Qty '' @ q) @
     pushIf (wholeOf (exec conditionRegex t)) trim @
     pushIf (groupOf (exec explicitInstructionRegex t) 1) trim @
     pushIf (wholeOf (exec tabletCountRegex t)) trim"

definition fallbackPrescriptionSummary ::
  "(nat \<Rightarrow> jsstring) \<Rightarrow> simplifyRequest \<Rightarrow> simplifiedSummary" where
  "fallbackPrescriptionSummary lc input =
     (let t = sanitizeTriageText (rxText input);
          lower = toLowerCase lc t;
          fallbackText = prescriptionFallbackByLanguage (language input);
          medicineMatch = exec medicineRegex t;
          name = orElse (map_option (\<lambda>g. trim (removeFirst leadingFormRegex g))
                           (groupOf medicineMatch 1)) (defaultMedicine fallbackText);
          dose = orElse (map_option (\<lambda>g. trim (collapseWhite g)) (groupOf medicineMatch 2))
                   (defaultDosage fallbackText);
          dur = orElse (groupOf (exec durationRegex lower) 1) (defaultDuration fallbackText);
          warns = (if testRe emptyStomachRegex lower then [warningEmptyStomach fallbackText]
                   else if testRe avoidRegex lower then [warningGeneric fallbackText]
                   else []);
          tips = (if testRe hydrationRegex lower then [hydrationTip fallbackText] else []);
          dedupedInstructions =
            uniqueInOrder (filter (\<lambda>v. v \<noteq> []) (map trim (extractInstructions fallbackText t lower)));
          explanationSegments =
            filter (\<lambda>v. v \<noteq> [])
              [useDirective fallbackText name dose,
               followSchedule fallbackText dur,
               (case dedupedInstructions of [] \<Rightarrow> [] | i # _ \<Rightarrow> i)]
      in \<lparr>languageCode = language input,
          languageLabel = prescriptionLanguageLabels (language input),
          doctorExplanation = joinSpace explanationSegments,
          medicines =
            [\<lparr>medicineName = name, dosage = dose, duration = dur,
              timingSlots = extractTimingSlotsFromText lc lower,
              instructions = dedupedInstructions\<rparr>],
          warnings = warns,
          hydrationTips = tips,
          generalAdvice = [generalAdviceText fallbackText]\<rparr>)"

text \<open>The classes of the extractor unfold on a numeral only, as the others do.\<close>

lemma isNameChar_numeral [js_eval]:
  "isNameChar (numeral n) \<longleftrightarrow>
     isLatin (numeral n) \<or> isDigit (numeral n) \<or> (numeral n :: nat) = 45"
  by (rule isNameChar_def)

lemma notLineTerminator_numeral [js_eval]:
  "notLineTerminator (numeral n) \<longleftrightarrow>
     \<not> ((numeral n :: nat) = 10 \<or> (numeral n :: nat) = 13 \<or> (numeral n :: nat) = 8232 \<or>
        (numeral n :: nat) = 8233)"
  by (simp add: notLineTerminator_def isLineTerminator_def)

lemma notDot_numeral [js_eval]: "notDot (numeral n) \<longleftrightarrow> (numeral n :: nat) \<noteq> 46"
  by (rule notDot_def)

lemma notDotSemicolon_numeral [js_eval]:
  "notDotSemicolon (numeral n) \<longleftrightarrow> (numeral n :: nat) \<noteq> 46 \<and> (numeral n :: nat) \<noteq> 59"
  by (rule notDotSemicolon_def)

lemmas extractor_patterns =
  wordS_def foodMealMeals_def asNeededRegex_def afterFoodRegex_def beforeFoodRegex_def
  morningRegex_def afternoonRegex_def nightRegex_def thriceRegex_def twiceRegex_def
  onceRegex_def bedtimeRegex_def nameWord_def formPrefix_def medicineRegex_def
  leadingFormRegex_def durationUnit_def durationRegex_def emptyStomachRegex_def
  avoidRegex_def hydrationRegex_def afterMealRegex_def beforeMealRegex_def
  frequencyRegex_def qtyRegex_def conditionRegex_def explicitInstructionRegex_def
  tabletCountRegex_def

lemmas extractor_eval =
  extractor_patterns regex_syntax js_eval Let_def toLowerCase_def sanitizeTriageText_def
  trim_def removeFirst_def orElse_def groupOf_def wholeOf_def pushIf_def
  extractInstructions_def extractTimingSlotsFromText_def buildPrescriptionTimingSlot_def
  fallbackPrescriptionSummary_def prescriptionFallbackByLanguage_def
  prescriptionLanguageLabels_def

section \<open>The external model adapter\<close>

text \<open>
  \<open>requestGeminiJson\<close>, given the outcome of its \<open>fetch\<close>. \<open>null\<close> is \<open>JNull\<close>. The
  \<open>fetch\<close> and \<open>response.json()\<close> stand outside the \<open>try\<close>: when the request is rejected
  or the body is not JSON, the rejection goes to the caller.
\<close>

definition adapterResponse :: "(jsstring \<Rightarrow> json option) \<Rightarrow> fetchOutcome \<Rightarrow> json completion" where
  "adapterResponse jp outcome =
     (case outcome of
        FetchRejected \<Rightarrow> Thrown FetchError
      | Response isOk st bd \<Rightarrow>
          if \<not> isOk then Returned JNull
          else
            (case jp bd of
               None \<Rightarrow> Thrown SyntaxError
             | Some data \<Rightarrow>
                 (case candidateText data of
                    Thrown e \<Rightarrow> Thrown e
                  | Returned None \<Rightarrow> Returned JNull
                  | Returned (Some rawText) \<Rightarrow>
                      if rawText = [] then Returned JNull
                      else
                        (case jp rawText of
                           Some parsedJson \<Rightarrow> Returned parsedJson
                         | None \<Rightarrow>
                             (case exec jsonBlockRegex rawText of
                                None \<Rightarrow> Returned JNull
                              | Some m \<Rightarrow>
                                  (case jp (matched m) of
                                     None \<Rightarrow> Returned JNull
                                   | Some parsedJson \<Rightarrow> Returned parsedJson))))))"

text \<open>The call is the \<open>i\<close>-th outbound request of the invocation.\<close>

definition requestGeminiJson ::
  "env \<Rightarrow> (jsstring \<Rightarrow> json option) \<Rightarrow> (nat \<Rightarrow> fetchOutcome) \<Rightarrow> nat \<Rightarrow> outboundCall \<Rightarrow>
   json completion \<times> outboundCall list" where
  "requestGeminiJson e jp net i params =
     (if \<not> keyConfigured e then (Returned JNull, [])
      else (adapterResponse jp (net i), [params]))"

section \<open>The simplifier: schema, alignment, pipeline\<close>

text \<open>The validators of zod for the summary.\<close>

definition boundedString :: "nat \<Rightarrow> nat \<Rightarrow> json \<Rightarrow> jsstring option" where
  "boundedString lo hi j =
     (case j of
        JStr s \<Rightarrow> if lo \<le> length s \<and> length s \<le> hi then Some s else None
      | _ \<Rightarrow> None)"

fun allSome :: "'a option list \<Rightarrow> 'a list option" where
  "allSome [] = Some []"
| "allSome (None # xs) = None"
| "allSome (Some x # xs) = map_option ((#) x) (allSome xs)"

definition arrayField ::
  "(jsstring \<times> json) list \<Rightarrow> string \<Rightarrow> nat \<Rightarrow> nat \<Rightarrow> (json \<Rightarrow> 'a option) \<Rightarrow> 'a list option" where
  "arrayField kvs name lo hi element =
     (case map_of kvs (lit name) of
        Some (JArr xs) \<Rightarrow>
          if lo \<le> length xs \<and> length xs \<le> hi then allSome (map element xs) else None
      | _ \<Rightarrow> None)"

definition prescriptionLanguageSchema :: "json option \<Rightarrow> prescriptionLanguage option" where
  "prescriptionLanguageSchema j =
     (case j of
        Some (JStr s) \<Rightarrow>
          if s = lit ''en'' then Some EN
          else if s = lit ''hi'' then Some HI
          else if s = lit ''ta'' then Some TA
          else if s = lit ''bn'' then Some BN
          else None
      | _ \<Rightarrow> None)"

definition timingSlotNames :: "(string \<times> timingSlot) list" where
  "timingSlotNames =
     [(''MORNING_BEFORE_FOOD'', MORNING_BEFORE_FOOD), (''MORNING_AFTER_FOOD'', MORNING_AFTER_FOOD),
      (''AFTERNOON_BEFORE_FOOD'', AFTERNOON_BEFORE_FOOD),
      (''AFTERNOON_AFTER_FOOD'', AFTERNOON_AFTER_FOOD),
      (''NIGHT_BEFORE_FOOD'', NIGHT_BEFORE_FOOD), (''NIGHT_AFTER_FOOD'', NIGHT_AFTER_FOOD),
      (''BEDTIME'', BEDTIME), (''AS_NEEDED'', AS_NEEDED), (''UNSPECIFIED'', UNSPECIFIED)]"

definition prescriptionTimingSlotSchema :: "json \<Rightarrow> timingSlot option" where
  "prescriptionTimingSlotSchema j =
     (case j of
        JStr s \<Rightarrow> map_of (map (\<lambda>(n, v). (lit n, v)) timingSlotNames) s
      | _ \<Rightarrow> None)"

definition prescriptionSimplifiedMedicineSchema :: "json \<Rightarrow> simplifiedMedicine option" where
  "prescriptionSimplifiedMedicineSchema j =
     (case j of
        JObj kvs \<Rightarrow>
          if \<not> strictKeys kvs
               [''medicineName'', ''dosage'', ''duration'', ''timingSlots'', ''instructions'']
          then None
          else
            Option.bind (strField kvs ''medicineName'' 1 160) (\<lambda>n.
            Option.bind (strField kvs ''dosage'' 1 160) (\<lambda>d.
            Option.bind (strField kvs ''duration'' 1 160) (\<lambda>u.
            Option.bind (arrayField kvs ''timingSlots'' 1 8 prescriptionTimingSlotSchema) (\<lambda>ts.
            Option.bind (arrayField kvs ''instructions'' 0 8 (boundedString 1 220)) (\<lambda>ins.
              Some \<lparr>medicineName = n, dosage = d, duration = u, timingSlots = ts,
                    instructions = ins\<rparr>)))))
      | _ \<Rightarrow> None)"

text \<open>\<open>prescriptionSimplifyResponseSchema.safeParse\<close>; \<open>None\<close> is \<open>success: false\<close>.\<close>

definition prescriptionSimplifyResponseSchema :: "json \<Rightarrow> simplifiedSummary option" where
  "prescriptionSimplifyResponseSchema j =
     (case j of
        JObj kvs \<Rightarrow>
          if \<not> strictKeys kvs
               [''languageCode'', ''languageLabel'', ''doctorExplanation'', ''medicines'',
                ''warnings'', ''hydrationTips'', ''generalAdvice'']
          then None
          else
            Option.bind (prescriptionLanguageSchema (map_of kvs (lit ''languageCode''))) (\<lambda>c.
            Option.bind (strField kvs ''languageLabel'' 2 60) (\<lambda>l.
            Option.bind (strField kvs ''doctorExplanation'' 5 1200) (\<lambda>x.
            Option.bind (arrayField kvs ''medicines'' 1 12 prescriptionSimplifiedMedicineSchema) (\<lambda>ms.
            Option.bind (arrayField kvs ''warnings'' 0 10 (boundedString 1 220)) (\<lambda>ws.
            Option.bind (arrayField kvs ''hydrationTips'' 0 8 (boundedString 1 220)) (\<lambda>hs.
            Option.bind (arrayField kvs ''generalAdvice'' 0 10 (boundedString 1 220)) (\<lambda>gs.
              Some \<lparr>languageCode = c, languageLabel = l, doctorExplanation = x,
                    medicines = ms, warnings = ws, hydrationTips = hs,
                    generalAdvice = gs\<rparr>)))))))
      | _ \<Rightarrow> None)"

text \<open>\<open>prescriptionScriptRegexByLanguage\<close>: one unit of the script's Unicode block.\<close>

definition inScript :: "prescriptionLanguage \<Rightarrow> nat \<Rightarrow> bool" where
  "inScript l c =
     (case l of
        EN \<Rightarrow> False
      | HI \<Rightarrow> 2304 \<le> c \<and> c \<le> 2431
      | TA \<Rightarrow> 2944 \<le> c \<and> c \<le> 3071
      | BN \<Rightarrow> 2432 \<le> c \<and> c \<le> 2559)"

definition prescriptionNarrativeText :: "simplifiedSummary \<Rightarrow> jsstring" where
  "prescriptionNarrativeText s =
     sanitizeTriageText
       (joinSpace ([doctorExplanation s] @ concat (map instructions (medicines s)) @
          warnings s @ hydrationTips s @ generalAdvice s))"

text \<open>
  \<open>isPrescriptionLanguageAligned\<close>. The script pattern has no \<open>g\<close> flag, so
  \<open>narrative.match(scriptRegex)\<close> is null or the array of the first match alone, and
  \<open>scriptCount\<close> is 0 or 1; the Latin pattern has the flag and \<open>latinCount\<close> counts every
  letter.
\<close>

definition isPrescriptionLanguageAligned :: "simplifiedSummary \<Rightarrow> prescriptionLanguage \<Rightarrow> bool" where
  "isPrescriptionLanguageAligned s l =
     (if l = EN then True
      else
        (let narrative = prescriptionNarrativeText s;
             scriptCount = (case exec (Cls (inScript l)) narrative of
                              None \<Rightarrow> 0
                            | Some m \<Rightarrow> Suc 0);
             latinCount = length (filter isLatin narrative)
         in if scriptCount = 0 then False
            else if (of_nat latinCount :: rat) > of_nat scriptCount * (12 / 10) then False
            else True))"

definition coercePrescriptionLanguage ::
  "simplifiedSummary \<Rightarrow> prescriptionLanguage \<Rightarrow> simplifiedSummary" where
  "coercePrescriptionLanguage s l =
     s\<lparr>languageCode := l, languageLabel := prescriptionLanguageLabels l\<rparr>"

definition translatePrescriptionSummaryToLanguage ::
  "env \<Rightarrow> (jsstring \<Rightarrow> json option) \<Rightarrow> (nat \<Rightarrow> fetchOutcome) \<Rightarrow> nat \<Rightarrow>
   simplifiedSummary \<Rightarrow> prescriptionLanguage \<Rightarrow> jsstring \<Rightarrow>
   simplifiedSummary option completion \<times> outboundCall list" where
  "translatePrescriptionSummaryToLanguage e jp net i s l model =
     (case requestGeminiJson e jp net i
             \<lparr>callModel = model, callPrompt = TranslatePrompt, callTemperature = 1 / 10\<rparr> of
        (Thrown x, calls) \<Rightarrow> (Thrown x, calls)
      | (Returned translatedJson, calls) \<Rightarrow>
          if falsy translatedJson then (Returned None, calls)
          else
            (case prescriptionSimplifyResponseSchema translatedJson of
               None \<Rightarrow> (Returned None, calls)
             | Some translated \<Rightarrow>
                 (Returned (Some (coercePrescriptionLanguage translated l)), calls)))"

definition runPrescriptionSimplifier ::
  "env \<Rightarrow> (jsstring \<Rightarrow> json option) \<Rightarrow> (nat \<Rightarrow> jsstring) \<Rightarrow> (nat \<Rightarrow> fetchOutcome) \<Rightarrow>
   simplifyRequest \<Rightarrow> simplifiedSummary completion \<times> outboundCall list" where
  "runPrescriptionSimplifier e jp lc net input =
     (let fallback = fallbackPrescriptionSummary lc input in
      if \<not> keyConfigured e then (Returned fallback, [])
      else
        (case requestGeminiJson e jp net 0
                \<lparr>callModel = modelName e, callPrompt = SimplifyPrompt,
                  callTemperature = 2 / 10\<rparr> of
           (Thrown x, calls) \<Rightarrow> (Thrown x, calls)
         | (Returned parsedJson, calls) \<Rightarrow>
             if falsy parsedJson then (Returned fallback, calls)
             else
               (case prescriptionSimplifyResponseSchema parsedJson of
                  None \<Rightarrow> (Returned fallback, calls)
                | Some parsed \<Rightarrow>
                    (let summary = coercePrescriptionLanguage parsed (language input) in
                     if \<not> isPrescriptionLanguageAligned summary (language input) then
                       (case translatePrescriptionSummaryToLanguage e jp net (length calls)
                               summary (language input) (modelName e) of
                          (Thrown x, calls2) \<Rightarrow> (Thrown x, calls @ calls2)
                        | (Returned None, calls2) \<Rightarrow> (Returned fallback, calls @ calls2)
                        | (Returned (Some translated), calls2) \<Rightarrow>
                            if isPrescriptionLanguageAligned translated (language input)
                            then (Returned translated, calls @ calls2)
                            else (Returned fallback, calls @ calls2))
                     else (Returned summary, calls)))))"

text \<open>
  The handler of \<open>POST /ai/prescription-simplify\<close>, from its \<open>try\<close> on (the actor is
  known, the body has passed \<open>prescriptionSimplifySchema\<close>, the audit log is written):
  the summary with status 200, or the message of what was thrown with status 503.
\<close>

datatype simplifyReply = SummaryReply simplifiedSummary | ErrorReply nat error

definition simplifyRoute ::
  "env \<Rightarrow> (jsstring \<Rightarrow> json option) \<Rightarrow> (nat \<Rightarrow> jsstring) \<Rightarrow> (nat \<Rightarrow> fetchOutcome) \<Rightarrow>
   simplifyRequest \<Rightarrow> simplifyReply" where
  "simplifyRoute e jp lc net input =
     (case fst (runPrescriptionSimplifier e jp lc net input) of
        Returned s \<Rightarrow> SummaryReply s
      | Thrown x \<Rightarrow> ErrorReply 503 x)"

text \<open>A body that \<open>prescriptionSimplifySchema\<close> accepts: 10 to 6000 units of text.\<close>

definition validSimplifyRequest :: "simplifyRequest \<Rightarrow> bool" where
  "validSimplifyRequest input \<longleftrightarrow> 10 \<le> length (rxText input) \<and> length (rxText input) \<le> 6000"

section \<open>The patient portal: days of a duration\<close>







section \<open>Phrases survive sanitising and lower-casing\<close>

lemma startsWith_iff: "startsWith s p \<longleftrightarrow> (\<exists>b. s = p @ b)"
  by (induction s p rule: startsWith.induct) auto

lemma includesStr_iff: "includesStr s p \<longleftrightarrow> (\<exists>a b. s = a @ p @ b)"
proof (induction s)
  case Nil
  then show ?case by simp
next
  case (Cons c cs)
  show ?case
  proof
    assume "includesStr (c # cs) p"
    then consider "startsWith (c # cs) p" | "includesStr cs p" by auto
    then show "\<exists>a b. c # cs = a @ p @ b"
    proof cases
      case 1
      then obtain b where "c # cs = p @ b" by (auto simp: startsWith_iff)
      then have "c # cs = [] @ p @ b" by simp
      then show ?thesis by blast
    next
      case 2
      then obtain a b where "cs = a @ p @ b" using Cons.IH by auto
      then have "c # cs = (c # a) @ p @ b" by simp
      then show ?thesis by blast
    qed
  next
    assume "\<exists>a b. c # cs = a @ p @ b"
    then obtain a b where ab: "c # cs = a @ p @ b" by auto
    show "includesStr (c # cs) p"
    proof (cases a)
      case Nil
      then have "startsWith (c # cs) p" using ab by (auto simp: startsWith_iff)
      then show ?thesis by simp
    next
      case (Cons x a')
      then have "cs = a' @ p @ b" using ab by simp
      then have "includesStr cs p" using Cons.IH by auto
      then show ?thesis by simp
    qed
  qed
qed

lemma toLowerCase_append: "toLowerCase lc (a @ b) = toLowerCase lc a @ toLowerCase lc b"
  by (simp add: toLowerCase_def)

lemma dropWhile_keep: "\<not> P c \<Longrightarrow> dropWhile P (xs @ c # ys) = dropWhile P xs @ c # ys"
  by (induction xs) auto

lemma collapseWhite_keep:
  "\<not> isWhite c \<Longrightarrow> collapseWhite (xs @ c # ys) = collapseWhite xs @ c # collapseWhite ys"
proof (induction xs rule: collapseWhite.induct)
  case 1
  then show ?case by simp
next
  case (2 d ds)
  then show ?case by (simp add: dropWhile_keep)
qed


text \<open>A phrase that sanitising and lower-casing leave as it is.\<close>

definition plainPhrase :: "jsstring \<Rightarrow> bool" where
  "plainPhrase p \<longleftrightarrow>
     p \<noteq> [] \<and> \<not> isWhite (hd p) \<and> \<not> isWhite (last p) \<and> collapseWhite p = p \<and>
     list_all (\<lambda>c. c < 128 \<and> \<not> isUpper c) p"

lemma collapseWhite_phrase:
  assumes "p \<noteq> []" "\<not> isWhite (hd p)" "\<not> isWhite (last p)" "collapseWhite p = p"
  shows "collapseWhite (a @ p @ b) = collapseWhite a @ p @ collapseWhite b"
proof (cases p)
  case Nil
  with assms show ?thesis by simp
next
  case (Cons c q)
  note pc = Cons
  have c: "\<not> isWhite c" using assms(2) pc by simp
  show ?thesis
  proof (cases q rule: rev_cases)
    case Nil
    then show ?thesis using pc c collapseWhite_keep [of c a b] by simp
  next
    case (snoc r d)
    have d: "\<not> isWhite d" using assms(3) pc snoc by simp
    have "collapseWhite (a @ p @ b) = collapseWhite a @ c # collapseWhite (r @ d # b)"
      using pc snoc c collapseWhite_keep [of c a "r @ d # b"] by simp
    also have "collapseWhite (r @ d # b) = collapseWhite r @ d # collapseWhite b"
      using d by (rule collapseWhite_keep)
    finally have l: "collapseWhite (a @ p @ b) =
        collapseWhite a @ (c # collapseWhite r @ [d]) @ collapseWhite b" by simp
    have "collapseWhite p = c # collapseWhite (r @ [d])"
      using pc snoc c by simp
    also have "collapseWhite (r @ [d]) = collapseWhite r @ [d]"
      using collapseWhite_keep [OF d, of r "[]"] by simp
    finally have "c # collapseWhite r @ [d] = p" using assms(4) by simp
    with l show ?thesis by simp
  qed
qed

lemma dropWhile_phrase:
  assumes "p \<noteq> []" "\<not> P (hd p)"
  shows "dropWhile P (a @ p @ b) = dropWhile P a @ p @ b"
proof -
  obtain c q where "p = c # q" using assms(1) by (cases p) auto
  then show ?thesis using assms(2) dropWhile_keep [of P c a "q @ b"] by simp
qed

lemma trim_phrase:
  assumes "p \<noteq> []" "\<not> isWhite (hd p)" "\<not> isWhite (last p)"
  shows "\<exists>a' b'. trim (a @ p @ b) = a' @ p @ b'"
proof -
  have 1: "dropWhile isWhite (a @ p @ b) = dropWhile isWhite a @ p @ b"
    using assms(1,2) by (rule dropWhile_phrase)
  have "rev p \<noteq> []" "\<not> isWhite (hd (rev p))"
    using assms(1,3) by (simp_all add: hd_rev)
  then have 2: "dropWhile isWhite (rev b @ rev p @ rev (dropWhile isWhite a)) =
      dropWhile isWhite (rev b) @ rev p @ rev (dropWhile isWhite a)"
    by (rule dropWhile_phrase)
  have "trim (a @ p @ b) = dropWhile isWhite a @ p @ rev (dropWhile isWhite (rev b))"
    unfolding trim_def 1 using 2 by simp
  then show ?thesis by blast
qed

lemma sanitize_phrase:
  assumes "plainPhrase p" "includesStr s p"
  shows "includesStr (sanitizeTriageText s) p"
proof -
  from assms(2) obtain a b where "s = a @ p @ b" by (auto simp: includesStr_iff)
  moreover have "collapseWhite (a @ p @ b) = collapseWhite a @ p @ collapseWhite b"
    using assms(1) by (intro collapseWhite_phrase) (auto simp: plainPhrase_def)
  moreover have "\<exists>a' b'. trim (collapseWhite a @ p @ collapseWhite b) = a' @ p @ b'"
    using assms(1) by (intro trim_phrase) (auto simp: plainPhrase_def)
  ultimately show ?thesis by (auto simp: sanitizeTriageText_def includesStr_iff)
qed

lemma toLowerCase_plain:
  "list_all (\<lambda>c. c < 128 \<and> \<not> isUpper c) p \<Longrightarrow> toLowerCase lc p = p"
  by (induction p) (auto simp: toLowerCase_def lowerUnit_def)

lemma toLowerCase_phrase:
  assumes "plainPhrase p" "includesStr s p"
  shows "includesStr (toLowerCase lc s) p"
proof -
  from assms(2) obtain a b where "s = a @ p @ b" by (auto simp: includesStr_iff)
  moreover have "toLowerCase lc p = p"
    using assms(1) by (intro toLowerCase_plain) (simp add: plainPhrase_def)
  ultimately have "toLowerCase lc s = toLowerCase lc a @ p @ toLowerCase lc b"
    by (simp add: toLowerCase_append)
  then show ?thesis unfolding includesStr_iff by blast
qed

lemma includesStr_append1: "includesStr s p \<Longrightarrow> includesStr (s @ t) p"
  unfolding includesStr_iff by (metis append.assoc)

lemma includesStr_append2: "includesStr t p \<Longrightarrow> includesStr (s @ t) p"
  unfolding includesStr_iff by (metis append.assoc)

text \<open>A phrase in the symptoms or in the additional context is in the text the gates scan.\<close>

definition mentions :: "symptomCheck \<Rightarrow> jsstring \<Rightarrow> bool" where
  "mentions input p \<longleftrightarrow>
     includesStr (symptoms input) p \<or>
     (case additionalContext input of None \<Rightarrow> False | Some c \<Rightarrow> includesStr c p)"

lemma combinedText_phrase:
  assumes "plainPhrase p" "mentions input p"
  shows "includesStr (combinedText lc (normalizedInput input)) p"
proof -
  let ?n = "normalizedInput input"
  have "includesStr (gateSymptoms ?n @ lit '' '' @
      (case gateContext ?n of None \<Rightarrow> [] | Some c \<Rightarrow> c)) p"
  proof (cases "includesStr (symptoms input) p")
    case True
    then have "includesStr (gateSymptoms ?n) p"
      using assms(1) by (simp add: normalizedInput_def sanitize_phrase)
    then show ?thesis by (rule includesStr_append1)
  next
    case False
    then obtain c where c: "additionalContext input = Some c" "includesStr c p"
      using assms(2) by (auto simp: mentions_def split: option.splits)
    have "c \<noteq> []" using c(2) assms(1) by (auto simp: plainPhrase_def)
    then have "gateContext ?n = Some (sanitizeTriageText c)"
      using c(1) by (simp add: normalizedInput_def)
    moreover have "includesStr (sanitizeTriageText c) p"
      using assms(1) c(2) by (rule sanitize_phrase)
    ultimately show ?thesis by (simp add: includesStr_append2)
  qed
  then show ?thesis unfolding combinedText_def by (rule toLowerCase_phrase [OF assms(1)])
qed

lemma plain_emergencyKeywords: "list_all plainPhrase emergencyKeywords"
  by (simp add: emergencyKeywords_def plainPhrase_def lit_def js_eval)


section \<open>Whole numbers as doubles\<close>

lemma bitLength_bounds: "2 ^ k \<le> n \<Longrightarrow> n < 2 ^ Suc k \<Longrightarrow> bitLength n = Suc k"
proof (induction k arbitrary: n)
  case 0
  then have "n = 1" by simp
  then show ?case by (simp add: bitLength.simps)
next
  case (Suc k)
  have "2 ^ k \<le> n div 2" "n div 2 < 2 ^ Suc k"
    using Suc.prems by auto
  then have "bitLength (n div 2) = Suc k" by (rule Suc.IH)
  moreover have "n \<noteq> 0" using Suc.prems by auto
  ultimately show ?case by (subst bitLength.simps) simp
qed

lemma bitLength_spec: "0 < n \<Longrightarrow> 2 ^ (bitLength n - 1) \<le> n \<and> n < 2 ^ bitLength n"
proof (induction n rule: bitLength.induct)
  case (1 n)
  show ?case
  proof (cases "n div 2 = 0")
    case True
    then have "n = 1" using 1(2) by auto
    then show ?thesis by (simp add: bitLength.simps)
  next
    case False
    then have ih: "2 ^ (bitLength (n div 2) - 1) \<le> n div 2 \<and> n div 2 < 2 ^ bitLength (n div 2)"
      using 1 by simp
    have pos: "0 < bitLength (n div 2)"
      using False by (subst bitLength.simps) simp
    have b: "bitLength n = Suc (bitLength (n div 2))"
      using 1(2) by (subst bitLength.simps) simp
    have "2 * 2 ^ (bitLength (n div 2) - 1) \<le> n" using ih by linarith
    moreover have "2 * 2 ^ (bitLength (n div 2) - 1) = (2::nat) ^ bitLength (n div 2)"
      using pos by (cases "bitLength (n div 2)") simp_all
    moreover have "n < 2 * 2 ^ bitLength (n div 2)" using ih by linarith
    ultimately show ?thesis unfolding b by simp
  qed
qed

lemma roundHalfEven_multiple: "0 < d \<Longrightarrow> roundHalfEven (k * d) d = k"
  by (simp add: roundHalfEven_def)

text \<open>A whole number below \<open>2\<^sup>5\<^sup>3\<close> is a double, and \<open>Number\<close> of its digits is that number.\<close>

lemma toDouble_whole:
  assumes "0 < n" and "n < 2 ^ mantissaBits"
  shows "toDouble n 1 = Finite (of_nat n)"
proof -
  define b where "b = bitLength n"
  define u where "u = unitExponent"
  define p where "p = mantissaBits"
  have np: "n < 2 ^ p" using assms(2) by (simp add: p_def)
  have pu: "p \<le> u" "p \<le> 1024" by (simp_all add: p_def u_def mantissaBits_def unitExponent_def)
  have b: "2 ^ (b - 1) \<le> n" "n < 2 ^ b"
    using bitLength_spec [OF assms(1)] by (simp_all add: b_def)
  have b1: "0 < b" using b(2) assms(1) by (cases b) auto
  have bp: "b \<le> p"
  proof (rule ccontr)
    assume "\<not> b \<le> p"
    then have "p \<le> b - 1" by simp
    then have "(2::nat) ^ p \<le> 2 ^ (b - 1)" by (rule power_increasing) simp
    then show False using b(1) np by linarith
  qed
  have "2 ^ (b - 1 + u) \<le> n * 2 ^ u"
    using b(1) by (simp add: power_add)
  moreover have "n * 2 ^ u < 2 ^ Suc (b - 1 + u)"
  proof -
    have "n * 2 ^ u < 2 ^ b * 2 ^ u" using b(2) by simp
    also have "\<dots> = 2 ^ Suc (b - 1 + u)" using b1 by (simp add: power_add [symmetric])
    finally show ?thesis .
  qed
  ultimately have len: "bitLength (n * 2 ^ u) = Suc (b - 1 + u)"
    by (rule bitLength_bounds)
  have step: "bitLength (n * 2 ^ u) - p = b + u - p"
    unfolding len using b1 by simp
  have split: "n * 2 ^ u = (n * 2 ^ (p - b)) * 2 ^ (b + u - p)"
  proof -
    have "(2::nat) ^ u = 2 ^ (p - b) * 2 ^ (b + u - p)"
      using bp pu by (simp add: power_add [symmetric])
    then show ?thesis by simp
  qed
  have r: "roundHalfEven (n * 2 ^ u) (2 ^ (b + u - p)) * 2 ^ (b + u - p) = n * 2 ^ u"
  proof -
    have "roundHalfEven ((n * 2 ^ (p - b)) * 2 ^ (b + u - p)) (2 ^ (b + u - p)) = n * 2 ^ (p - b)"
      by (rule roundHalfEven_multiple) simp
    then have "roundHalfEven (n * 2 ^ u) (2 ^ (b + u - p)) = n * 2 ^ (p - b)"
      by (simp only: split [symmetric])
    then show ?thesis by (simp only: split [symmetric])
  qed
  have "n * 2 ^ u < 2 ^ p * 2 ^ u" using np by simp
  also have "\<dots> = 2 ^ (p + u)" by (simp only: power_add)
  also have "\<dots> \<le> 2 ^ (1024 + u)" using pu by (intro power_increasing) simp_all
  finally have small: "n * 2 ^ u < 2 ^ (1024 + u)" .
  have "toDouble n 1 =
      (if roundHalfEven (n * 2 ^ u) (2 ^ (b + u - p)) * 2 ^ (b + u - p) < 2 ^ (1024 + u)
       then Finite (of_nat (roundHalfEven (n * 2 ^ u) (2 ^ (b + u - p)) * 2 ^ (b + u - p)) / 2 ^ u)
       else PlusInfinity)"
    unfolding toDouble_def Let_def u_def [symmetric] p_def [symmetric]
    by (simp only: div_by_1 step mult_1)
  then show ?thesis
    unfolding r using small by simp
qed

lemma toDouble_digits:
  "0 < n \<Longrightarrow> n < 9007199254740992 \<Longrightarrow> toDouble n (Suc 0) = Finite (of_nat n)"
  using toDouble_whole [of n] by (simp add: mantissaBits_def)

lemma roundHalfEven_nearest:
  assumes "2 * (m * d) < 2 * n + d" and "2 * n < 2 * (m * d) + d"
  shows "roundHalfEven n d = m"
proof -
  define f where "f = n div d"
  define r where "r = n mod d"
  have d: "0 < d" using assms(2) by (cases d) auto
  have n: "n = f * d + r" by (simp add: f_def r_def)
  have r: "r < d" using d by (simp add: r_def)
  have up: "f \<le> m"
  proof (rule ccontr)
    assume "\<not> f \<le> m"
    then have "Suc m \<le> f" by simp
    then have "Suc m * d \<le> f * d" by (rule mult_le_mono1)
    then have "m * d + d \<le> f * d" by simp
    then show False using assms(2) n by linarith
  qed
  have low: "m \<le> Suc f"
  proof (rule ccontr)
    assume "\<not> m \<le> Suc f"
    then have "Suc (Suc f) \<le> m" by simp
    then have "Suc (Suc f) * d \<le> m * d" by (rule mult_le_mono1)
    then have "f * d + d + d \<le> m * d" by simp
    then show False using assms(1) n r by linarith
  qed
  consider "f = m" | "Suc f = m" using up low by linarith
  then show ?thesis
  proof cases
    case 1
    have "2 * r < d" using assms(2) n 1 by simp
    then show ?thesis
      unfolding roundHalfEven_def Let_def f_def [symmetric] r_def [symmetric] using 1 by simp
  next
    case 2
    have "m * d = f * d + d" using 2 by auto
    then have "d < 2 * r" using assms(1) n by linarith
    then show ?thesis
      unfolding roundHalfEven_def Let_def f_def [symmetric] r_def [symmetric] using 2 by simp
  qed
qed

text \<open>
  A quotient between two powers of two, \<open>2\<^sup>5\<^sup>2\<^sup>+\<^sup>t \<le> units < 2\<^sup>5\<^sup>3\<^sup>+\<^sup>t\<close>, is rounded to a
  multiple of \<open>2\<^sup>t\<close>: to \<open>m\<close> times \<open>2\<^sup>t\<close> when it is less than half a step away from it.
\<close>

lemma toDouble_nearest:
  assumes "2 ^ (mantissaBits - 1 + t) * d \<le> n * 2 ^ unitExponent"
    and "n * 2 ^ unitExponent < 2 ^ (mantissaBits + t) * d"
    and "2 * (m * (d * 2 ^ t)) < 2 * (n * 2 ^ unitExponent) + d * 2 ^ t"
    and "2 * (n * 2 ^ unitExponent) < 2 * (m * (d * 2 ^ t)) + d * 2 ^ t"
    and "m * 2 ^ t < 2 ^ (1024 + unitExponent)"
  shows "toDouble n d = Finite (of_nat (m * 2 ^ t) / 2 ^ unitExponent)"
proof -
  define u where "u = unitExponent"
  define p where "p = mantissaBits"
  have p: "0 < p" by (simp add: p_def mantissaBits_def)
  have d: "0 < d" using assms(2) by (cases d) auto
  have "2 ^ (p - 1 + t) \<le> n * 2 ^ u div d"
    using assms(1) d by (simp add: less_eq_div_iff_mult_less_eq p_def u_def)
  moreover have "n * 2 ^ u div d < 2 ^ Suc (p - 1 + t)"
  proof -
    have "Suc (p - 1 + t) = p + t" using p by simp
    then show ?thesis
      using assms(2) d by (simp add: div_less_iff_less_mult p_def u_def)
  qed
  ultimately have "bitLength (n * 2 ^ u div d) = Suc (p - 1 + t)"
    by (rule bitLength_bounds)
  then have step: "bitLength (n * 2 ^ u div d) - p = t"
    using p by simp
  have r: "roundHalfEven (n * 2 ^ u) (d * 2 ^ t) = m"
    using assms(3,4) unfolding u_def by (rule roundHalfEven_nearest)
  show ?thesis
    unfolding toDouble_def Let_def u_def [symmetric] p_def [symmetric] step r
    using assms(5) by (simp add: u_def)
qed

text \<open>\<open>Number("89.999999999999999")\<close> is 90: the decimal is nearer to it than to the double before.\<close>

lemma nearly_ninety: "toDouble 89999999999999999 1000000000000000 = Finite 90"
  using toDouble_nearest [of 1028 1000000000000000 89999999999999999 "90 * 2 ^ 46"]
  by (simp add: mantissaBits_def unitExponent_def)


section \<open>The matcher on a run of one class\<close>

text \<open>
  A greedy quantifier over a class, on input that starts with a run of the class: the
  continuation is tried after the whole run first, then after each shorter part of it.
\<close>

definition lastUnit :: "nat option \<Rightarrow> jsstring \<Rightarrow> nat option" where
  "lastUnit pv xs = (if xs = [] then pv else Some (last xs))"

definition stopsAt :: "(nat \<Rightarrow> bool) \<Rightarrow> jsstring \<Rightarrow> bool" where
  "stopsAt p r = (case r of [] \<Rightarrow> True | u # _ \<Rightarrow> \<not> p u)"

lemma lastUnit_Cons: "lastUnit pv (x # xs) = lastUnit (Some x) xs"
  by (simp add: lastUnit_def)

lemma unit_stops: "stopsAt p r \<Longrightarrow> unitMatcher p k (MState pv r c) = None"
  by (cases r) (auto simp: stopsAt_def)

lemma repeat_run_success:
  assumes "list_all p xs" and "stopsAt p r" and "length xs + length r \<le> n"
    and "k (MState (lastUnit pv xs) r c) \<noteq> None"
  shows "repeatMatcher n (unitMatcher p) 0 None k (MState pv (xs @ r) c) =
           k (MState (lastUnit pv xs) r c)"
  using assms
proof (induction xs arbitrary: n pv)
  case Nil
  then show ?case
    by (cases n) (simp_all add: unit_stops lastUnit_def)
next
  case (Cons x xs)
  then obtain n' where n: "n = Suc n'" by (cases n) auto
  have "repeatMatcher n' (unitMatcher p) 0 None k (MState (Some x) (xs @ r) c) =
      k (MState (lastUnit (Some x) xs) r c)"
    using Cons.prems n by (intro Cons.IH) (simp_all add: lastUnit_Cons)
  then show ?case
    using Cons.prems n by (auto simp: lastUnit_Cons)
qed


lemma matcher_Cls: "matcher (Cls p) = unitMatcher p"
  by (rule ext)+ simp

lemma matcher_star_class:
  "matcher (star (Cls p)) k (MState pv r c) =
     repeatMatcher (length r) (unitMatcher p) 0 None k (MState pv r c)"
  by (simp add: star_def matcher_Cls del: repeatMatcher.simps)

lemma matcher_plus_class:
  "matcher (plus (Cls p)) k (MState pv r c) =
     unitMatcher p (repeatMatcher (length r) (unitMatcher p) 0 None k) (MState pv r c)"
  by (simp add: plus_def matcher_Cls)






lemma stopsAt_Cons: "stopsAt p (u # r) \<longleftrightarrow> \<not> p u"
  by (simp add: stopsAt_def)

lemma stopsAt_Nil: "stopsAt p []"
  by (simp add: stopsAt_def)


section \<open>Properties of the triage pipeline\<close>

lemma find_includes:
  assumes "keyword \<in> set ks" "includesStr t keyword"
  shows "\<exists>m. find (includesStr t) ks = Some m \<and> m \<in> set ks \<and> includesStr t m"
proof (cases "find (includesStr t) ks")
  case None
  then show ?thesis using assms by (auto simp: find_None_iff)
next
  case (Some m)
  then show ?thesis by (auto simp: find_Some_iff)
qed

lemma red_response_number:
  "includesStr (recommendedAction (createRuleBasedRedResponse reason)) INDIA_EMERGENCY_NUMBER"
  by (simp add: createRuleBasedRedResponse_def INDIA_EMERGENCY_NUMBER_def lit_def)

lemma plain_refusalKeywords:
  "list_all plainPhrase (dosageRequestKeywords @ diagnosisRequestKeywords @ safetyBypassKeywords)"
  by (simp add: dosageRequestKeywords_def diagnosisRequestKeywords_def safetyBypassKeywords_def
      plainPhrase_def lit_def js_eval)

lemmas gate_eval =
  regex_syntax js_eval Let_def toLowerCase_def combinedText_def ruleBasedEmergencyCheck_def
  emergencyKeywords_def oxygenRegex_def numberOfDecimal_def digitsValue_def toDouble_digits
  isBelow_def
  normalizedInput_def sanitizeTriageText_def trim_def

lemma dosage_example_no_emergency:
  "ruleBasedEmergencyCheck (\<lambda>c. [c])
     (normalizedInput \<lparr>symptoms = lit ''what dosage of paracetamol'', age = None,
        symptomDuration = None, knownConditions = None, additionalContext = None\<rparr>) = None"
  by (simp add: gate_eval)




text \<open>
  Claim C1. Whenever the symptoms or the additional context of a triage request contain
  one of the fixed emergency phrases, \<open>runSymptomTriage\<close> returns the RED response of the
  rule engine for a phrase of the list that the scanned text contains: its explanation
  names that phrase, its recommended action contains the emergency number 112, and no
  outbound call is made, whatever the settings, the JSON parser and the network are.
\<close>

theorem emergency_phrase_red:
  assumes "keyword \<in> set emergencyKeywords" and "mentions input keyword"
  shows "\<exists>matched. matched \<in> set emergencyKeywords \<and>
           includesStr (combinedText lc (normalizedInput input)) matched \<and>
           runSymptomTriage e jp lc net input =
             (Returned (createRuleBasedRedResponse matched), []) \<and>
           triageLevel (createRuleBasedRedResponse matched) = RED \<and>
           explanation (createRuleBasedRedResponse matched) =
             lit ''The message includes emergency indicators ('' @ matched @
             lit '') that can be life-threatening.'' \<and>
           includesStr (recommendedAction (createRuleBasedRedResponse matched)) (lit ''112'')"
proof -
  have "plainPhrase keyword"
    using assms(1) plain_emergencyKeywords by (simp add: list_all_iff)
  then have "includesStr (combinedText lc (normalizedInput input)) keyword"
    using assms(2) by (rule combinedText_phrase)
  with assms(1) obtain m where m:
    "find (includesStr (combinedText lc (normalizedInput input))) emergencyKeywords = Some m"
    "m \<in> set emergencyKeywords" "includesStr (combinedText lc (normalizedInput input)) m"
    using find_includes by blast
  have "ruleBasedEmergencyCheck lc (normalizedInput input) = Some m"
    using m(1) by (simp add: ruleBasedEmergencyCheck_def)
  then have "runSymptomTriage e jp lc net input = (Returned (createRuleBasedRedResponse m), [])"
    by (simp add: runSymptomTriage_def)
  moreover have "includesStr (recommendedAction (createRuleBasedRedResponse m)) (lit ''112'')"
    using red_response_number [of m] by (simp add: INDIA_EMERGENCY_NUMBER_def)
  ultimately show ?thesis
    using m(2,3) by (auto simp: createRuleBasedRedResponse_def)
qed

theorem emergency_phrase_red_witness:
  "lit ''chest pain'' \<in> set emergencyKeywords \<and>
   mentions \<lparr>symptoms = lit ''severe chest pain'', age = None, symptomDuration = None,
             knownConditions = None, additionalContext = None\<rparr> (lit ''chest pain'') \<and>
   (\<exists>matched. matched \<in> set emergencyKeywords \<and>
      runSymptomTriage \<lparr>GEMINI_API_KEY = None, GEMINI_MODEL = None\<rparr> (\<lambda>t. None) (\<lambda>c. [c])
        (\<lambda>i. FetchRejected)
        \<lparr>symptoms = lit ''severe chest pain'', age = None, symptomDuration = None,
          knownConditions = None, additionalContext = None\<rparr> =
        (Returned (createRuleBasedRedResponse matched), []))"
proof -
  have k: "lit ''chest pain'' \<in> set emergencyKeywords"
    by (simp add: emergencyKeywords_def)
  have m: "mentions \<lparr>symptoms = lit ''severe chest pain'', age = None, symptomDuration = None,
             knownConditions = None, additionalContext = None\<rparr> (lit ''chest pain'')"
    by (simp add: mentions_def lit_def)
  show ?thesis
    using k m emergency_phrase_red [OF k m] by blast
qed

text \<open>
  Claim C5. Whenever the symptoms or the additional context contain a dosage-request,
  diagnosis-request or safety-bypass phrase, \<open>runSymptomTriage\<close> makes no outbound call
  and returns the fixed YELLOW refusal (consult a doctor within 24 hours; no diagnosis,
  no dosing) when the emergency gate found nothing, and the RED response of the emergency
  gate when it found something: the refusal gate runs second.
\<close>

theorem safety_refusal_yellow:
  assumes "keyword \<in> set (dosageRequestKeywords @ diagnosisRequestKeywords @ safetyBypassKeywords)"
    and "mentions input keyword"
  shows "runSymptomTriage e jp lc net input =
           (case ruleBasedEmergencyCheck lc (normalizedInput input) of
              None \<Rightarrow> (Returned createRuleBasedSafetyRefusalResponse, [])
            | Some reason \<Rightarrow> (Returned (createRuleBasedRedResponse reason), [])) \<and>
         triageLevel createRuleBasedSafetyRefusalResponse = YELLOW \<and>
         includesStr (recommendedAction createRuleBasedSafetyRefusalResponse)
           (lit ''Consult a licensed doctor within 24 hours'') \<and>
         includesStr (explanation createRuleBasedSafetyRefusalResponse)
           (lit ''cannot provide diagnosis, dosing'')"
proof -
  have "plainPhrase keyword"
    using assms(1) plain_refusalKeywords by (simp add: list_all_iff)
  then have "includesStr (combinedText lc (normalizedInput input)) keyword"
    using assms(2) by (rule combinedText_phrase)
  then have "ruleBasedSafetyRefusalCheck lc (normalizedInput input)"
    using assms(1) by (auto simp: ruleBasedSafetyRefusalCheck_def list_ex_iff Let_def)
  then have "runSymptomTriage e jp lc net input =
           (case ruleBasedEmergencyCheck lc (normalizedInput input) of
              None \<Rightarrow> (Returned createRuleBasedSafetyRefusalResponse, [])
            | Some reason \<Rightarrow> (Returned (createRuleBasedRedResponse reason), []))"
    by (simp add: runSymptomTriage_def split: option.splits)
  moreover have "triageLevel createRuleBasedSafetyRefusalResponse = YELLOW"
    by (simp add: createRuleBasedSafetyRefusalResponse_def)
  moreover have "includesStr (recommendedAction createRuleBasedSafetyRefusalResponse)
           (lit ''Consult a licensed doctor within 24 hours'')"
    by (simp add: createRuleBasedSafetyRefusalResponse_def lit_def)
  moreover have "includesStr (explanation createRuleBasedSafetyRefusalResponse)
           (lit ''cannot provide diagnosis, dosing'')"
    by (simp add: createRuleBasedSafetyRefusalResponse_def lit_def)
  ultimately show ?thesis by blast
qed

theorem safety_refusal_yellow_witness:
  "lit ''dosage'' \<in> set (dosageRequestKeywords @ diagnosisRequestKeywords @ safetyBypassKeywords) \<and>
   mentions \<lparr>symptoms = lit ''what dosage of paracetamol'', age = None,
        symptomDuration = None, knownConditions = None, additionalContext = None\<rparr> (lit ''dosage'') \<and>
   runSymptomTriage \<lparr>GEMINI_API_KEY = None, GEMINI_MODEL = None\<rparr> (\<lambda>t. None) (\<lambda>c. [c])
     (\<lambda>i. FetchRejected)
     \<lparr>symptoms = lit ''what dosage of paracetamol'', age = None,
        symptomDuration = None, knownConditions = None, additionalContext = None\<rparr> =
     (Returned createRuleBasedSafetyRefusalResponse, [])"
proof -
  have k: "lit ''dosage'' \<in>
      set (dosageRequestKeywords @ diagnosisRequestKeywords @ safetyBypassKeywords)"
    by (simp add: dosageRequestKeywords_def)
  have m: "mentions \<lparr>symptoms = lit ''what dosage of paracetamol'', age = None,
        symptomDuration = None, knownConditions = None, additionalContext = None\<rparr> (lit ''dosage'')"
    by (simp add: mentions_def lit_def)
  show ?thesis
    using k m safety_refusal_yellow [OF k m, of "\<lparr>GEMINI_API_KEY = None, GEMINI_MODEL = None\<rparr>"
      "\<lambda>t. None" "\<lambda>c. [c]" "\<lambda>i. FetchRejected"] dosage_example_no_emergency
    by simp
qed

text \<open>
  The reading \<open>89.999999999999999\<close> is the double 90 and leaves the emergency gate at
  null: a dosage request beside it gets the refusal.
\<close>

lemma rounded_reading_no_emergency:
  "runSymptomTriage e jp (\<lambda>c. [c]) net
     \<lparr>symptoms = lit ''dosage? spo2 89.999999999999999'', age = None,
        symptomDuration = None, knownConditions = None, additionalContext = None\<rparr> =
     (Returned createRuleBasedSafetyRefusalResponse, [])"
proof -
  have "ruleBasedEmergencyCheck (\<lambda>c. [c])
     (normalizedInput \<lparr>symptoms = lit ''dosage? spo2 89.999999999999999'', age = None,
        symptomDuration = None, knownConditions = None, additionalContext = None\<rparr>) = None"
    by (simp add: gate_eval nearly_ninety)
  moreover have "ruleBasedSafetyRefusalCheck (\<lambda>c. [c])
     (normalizedInput \<lparr>symptoms = lit ''dosage? spo2 89.999999999999999'', age = None,
        symptomDuration = None, knownConditions = None, additionalContext = None\<rparr>)"
    by (simp add: ruleBasedSafetyRefusalCheck_def dosageRequestKeywords_def combinedText_def
        normalizedInput_def sanitizeTriageText_def trim_def toLowerCase_def lit_def Let_def js_eval)
  ultimately show ?thesis
    by (simp add: runSymptomTriage_def)
qed



text \<open>
  Claim C10. The two gates read the symptoms and the additional context only: requests
  that agree on both get the same outcome from each gate, whatever their age, duration
  and known conditions are. So when neither gate fires on the symptoms and the context,
  no choice of age, duration and known conditions makes the pipeline short-circuit: it
  goes on to the model stage.
\<close>

theorem gates_read_symptoms_and_context_only:
  assumes "symptoms a = symptoms b" and "additionalContext a = additionalContext b"
  shows "ruleBasedEmergencyCheck lc (normalizedInput a) =
           ruleBasedEmergencyCheck lc (normalizedInput b) \<and>
         ruleBasedSafetyRefusalCheck lc (normalizedInput a) =
           ruleBasedSafetyRefusalCheck lc (normalizedInput b) \<and>
         (ruleBasedEmergencyCheck lc (normalizedInput a) = None \<and>
          \<not> ruleBasedSafetyRefusalCheck lc (normalizedInput a) \<longrightarrow>
            runSymptomTriage e jp lc net b =
              (if keyConfigured e
               then (triageModelStage jp (net 0),
                     [\<lparr>callModel = modelName e, callPrompt = TriagePrompt,
                       callTemperature = 3 / 10\<rparr>])
               else (Thrown KeyMissing, [])))"
proof -
  have n: "normalizedInput a = normalizedInput b"
    using assms by (simp add: normalizedInput_def)
  show ?thesis
    by (simp add: n runSymptomTriage_def)
qed

lemma headache_no_gate:
  "gateSymptoms n = lit ''I have a mild headache since this morning'' \<Longrightarrow>
   gateContext n = None \<Longrightarrow>
   ruleBasedEmergencyCheck (\<lambda>c. [c]) n = None \<and> \<not> ruleBasedSafetyRefusalCheck (\<lambda>c. [c]) n"
  by (simp add: gate_eval ruleBasedSafetyRefusalCheck_def dosageRequestKeywords_def
      diagnosisRequestKeywords_def safetyBypassKeywords_def)

theorem gates_read_symptoms_and_context_only_witness:
  "runSymptomTriage \<lparr>GEMINI_API_KEY = None, GEMINI_MODEL = None\<rparr> (\<lambda>t. None) (\<lambda>c. [c])
     (\<lambda>i. FetchRejected)
     \<lparr>symptoms = lit ''I have a mild headache since this morning'', age = Some 30,
       symptomDuration = Some (lit ''seizure''), knownConditions = Some [lit ''seizure''],
       additionalContext = None\<rparr> = (Thrown KeyMissing, [])"
proof -
  let ?a = "\<lparr>symptoms = lit ''I have a mild headache since this morning'', age = None,
       symptomDuration = None, knownConditions = None, additionalContext = None\<rparr>"
  let ?b = "\<lparr>symptoms = lit ''I have a mild headache since this morning'', age = Some 30,
       symptomDuration = Some (lit ''seizure''), knownConditions = Some [lit ''seizure''],
       additionalContext = None\<rparr>"
  have s: "sanitizeTriageText (lit ''I have a mild headache since this morning'') =
      lit ''I have a mild headache since this morning''"
    by (simp add: sanitizeTriageText_def trim_def lit_def js_eval)
  have g: "ruleBasedEmergencyCheck (\<lambda>c. [c]) (normalizedInput ?a) = None \<and>
      \<not> ruleBasedSafetyRefusalCheck (\<lambda>c. [c]) (normalizedInput ?a)"
    using s by (intro headache_no_gate) (simp_all add: normalizedInput_def)
  have "symptoms ?a = symptoms ?b" "additionalContext ?a = additionalContext ?b"
    by simp_all
  from gates_read_symptoms_and_context_only [OF this, of "\<lambda>c. [c]"
      "\<lparr>GEMINI_API_KEY = None, GEMINI_MODEL = None\<rparr>" "\<lambda>t. None" "\<lambda>i. FetchRejected"] g
  show ?thesis by (simp add: keyConfigured_def)
qed

section \<open>Properties of the adapter and of the simplifier\<close>

text \<open>The two calls the simplifier can make.\<close>

definition simplifyCall :: "env \<Rightarrow> outboundCall" where
  "simplifyCall e = \<lparr>callModel = modelName e, callPrompt = SimplifyPrompt, callTemperature = 2 / 10\<rparr>"

definition translateCall :: "env \<Rightarrow> outboundCall" where
  "translateCall e = \<lparr>callModel = modelName e, callPrompt = TranslatePrompt, callTemperature = 1 / 10\<rparr>"

text \<open>The rule in the words of the specification: both counts are of every unit.\<close>

definition alignedByCounts :: "simplifiedSummary \<Rightarrow> prescriptionLanguage \<Rightarrow> bool" where
  "alignedByCounts s l =
     (if l = EN then True
      else
        (let narrative = prescriptionNarrativeText s;
             scriptCount = length (filter (inScript l) narrative);
             latinCount = length (filter isLatin narrative)
         in if scriptCount = 0 then False
            else if (of_nat latinCount :: rat) > of_nat scriptCount * (12 / 10) then False
            else True))"

definition hindiWithQuantity :: simplifiedSummary where
  "hindiWithQuantity =
     \<lparr>languageCode = HI, languageLabel = lit ''Hindi'',
      doctorExplanation = warningEmptyStomach fallbackHI,
      medicines =
        [\<lparr>medicineName = defaultMedicine fallbackHI, dosage = lit ''500mg'',
          duration = lit ''5'', timingSlots = [UNSPECIFIED], instructions = [lit ''Qty 10'']\<rparr>],
      warnings = [], hydrationTips = [], generalAdvice = []\<rparr>"

text \<open>A model reply for the witnesses: a summary that calls itself Tamil, labelled Klingon.\<close>

definition sampleSummaryJson :: json where
  "sampleSummaryJson = JObj
     [(lit ''languageCode'', JStr (lit ''ta'')),
      (lit ''languageLabel'', JStr (lit ''Klingon'')),
      (lit ''doctorExplanation'', JStr (lit ''Take one tablet after breakfast.'')),
      (lit ''medicines'', JArr [JObj
         [(lit ''medicineName'', JStr (lit ''Paracetamol'')),
          (lit ''dosage'', JStr (lit ''500mg'')),
          (lit ''duration'', JStr (lit ''5 days'')),
          (lit ''timingSlots'', JArr [JStr (lit ''MORNING_AFTER_FOOD'')]),
          (lit ''instructions'', JArr [])]]),
      (lit ''warnings'', JArr []),
      (lit ''hydrationTips'', JArr []),
      (lit ''generalAdvice'', JArr [])]"

definition sampleBodyJson :: json where
  "sampleBodyJson = JObj
     [(lit ''candidates'', JArr [JObj
        [(lit ''content'', JObj
           [(lit ''parts'', JArr [JObj [(lit ''text'', JStr (lit '' {summary} ''))]])])]])]"

definition sampleParser :: "jsstring \<Rightarrow> json option" where
  "sampleParser t =
     (if t = lit ''{body}'' then Some sampleBodyJson
      else if t = lit ''{summary}'' then Some sampleSummaryJson
      else None)"

definition sampleSummary :: simplifiedSummary where
  "sampleSummary =
     \<lparr>languageCode = EN, languageLabel = lit ''English'',
      doctorExplanation = lit ''Take one tablet after breakfast.'',
      medicines =
        [\<lparr>medicineName = lit ''Paracetamol'', dosage = lit ''500mg'', duration = lit ''5 days'',
          timingSlots = [MORNING_AFTER_FOOD], instructions = []\<rparr>],
      warnings = [], hydrationTips = [], generalAdvice = []\<rparr>"

subsection \<open>The adapter\<close>

lemma requestGeminiJson_rejected:
  "keyConfigured e \<Longrightarrow> net i = FetchRejected \<Longrightarrow>
   requestGeminiJson e jp net i params = (Thrown FetchError, [params])"
  by (simp add: requestGeminiJson_def adapterResponse_def)

lemma requestGeminiJson_body_not_json:
  "keyConfigured e \<Longrightarrow> net i = Response True st bd \<Longrightarrow> jp bd = None \<Longrightarrow>
   requestGeminiJson e jp net i params = (Thrown SyntaxError, [params])"
  by (simp add: requestGeminiJson_def adapterResponse_def)

lemma requestGeminiJson_not_ok:
  "net i = Response False st bd \<Longrightarrow> fst (requestGeminiJson e jp net i params) = Returned JNull"
  by (simp add: requestGeminiJson_def adapterResponse_def)

lemma requestGeminiJson_no_key:
  "\<not> keyConfigured e \<Longrightarrow> requestGeminiJson e jp net i params = (Returned JNull, [])"
  by (simp add: requestGeminiJson_def)

lemma requestGeminiJson_calls:
  "length (snd (requestGeminiJson e jp net i params)) \<le> 1"
  by (simp add: requestGeminiJson_def)

text \<open>
  Claim C2. The adapter is to answer null on a network error, a status that is not 2xx,
  an empty payload or a parse failure, and never to throw. It answers null when the
  status is not 2xx, when the candidate text is missing or empty and when that text does
  not parse (the lemmas above and \<open>adapterResponse\<close>); but with the key configured, a
  \<open>fetch\<close> that the network rejects throws to the caller: the call stands outside every
  \<open>try\<close>.
\<close>

theorem adapter_throws_on_rejected_fetch:
  "requestGeminiJson \<lparr>GEMINI_API_KEY = Some (lit ''key''), GEMINI_MODEL = None\<rparr> (\<lambda>t. None)
     (\<lambda>i. FetchRejected) 0
     \<lparr>callModel = lit ''gemini-2.5-flash'', callPrompt = SimplifyPrompt, callTemperature = 2 / 10\<rparr> =
   (Thrown FetchError,
    [\<lparr>callModel = lit ''gemini-2.5-flash'', callPrompt = SimplifyPrompt, callTemperature = 2 / 10\<rparr>])"
  by (simp add: requestGeminiJson_def adapterResponse_def keyConfigured_def lit_def)

subsection \<open>The simplifier pipeline\<close>

lemma fallback_language:
  "languageCode (fallbackPrescriptionSummary lc input) = language input \<and>
   languageLabel (fallbackPrescriptionSummary lc input) = prescriptionLanguageLabels (language input)"
  by (simp add: fallbackPrescriptionSummary_def Let_def)

lemma coerce_language:
  "languageCode (coercePrescriptionLanguage s l) = l \<and>
   languageLabel (coercePrescriptionLanguage s l) = prescriptionLanguageLabels l"
  by (simp add: coercePrescriptionLanguage_def)

lemma translate_language:
  "translatePrescriptionSummaryToLanguage e jp net i s l m = (Returned (Some t), calls) \<Longrightarrow>
   languageCode t = l \<and> languageLabel t = prescriptionLanguageLabels l"
  by (auto simp: translatePrescriptionSummaryToLanguage_def coercePrescriptionLanguage_def
      split: prod.splits completion.splits if_splits option.splits)

lemma simplifier_fallback_on_null_or_invalid:
  assumes "requestGeminiJson e jp net 0 (simplifyCall e) = (Returned j, calls)"
    and "falsy j \<or> prescriptionSimplifyResponseSchema j = None"
  shows "runPrescriptionSimplifier e jp lc net input =
           (Returned (fallbackPrescriptionSummary lc input), calls)"
  using assms
  by (auto simp: runPrescriptionSimplifier_def Let_def simplifyCall_def requestGeminiJson_def
      split: if_splits)

lemma simplifier_aligned_model_output:
  assumes "requestGeminiJson e jp net 0 (simplifyCall e) = (Returned j, calls)"
    and "keyConfigured e" "\<not> falsy j" "prescriptionSimplifyResponseSchema j = Some parsed"
    and "isPrescriptionLanguageAligned (coercePrescriptionLanguage parsed (language input)) (language input)"
  shows "runPrescriptionSimplifier e jp lc net input =
           (Returned (coercePrescriptionLanguage parsed (language input)), calls)"
  using assms
  by (simp add: runPrescriptionSimplifier_def Let_def simplifyCall_def)

lemma simplifier_one_retry:
  assumes "requestGeminiJson e jp net 0 (simplifyCall e) = (Returned j, calls)"
    and "keyConfigured e" "\<not> falsy j" "prescriptionSimplifyResponseSchema j = Some parsed"
    and "\<not> isPrescriptionLanguageAligned (coercePrescriptionLanguage parsed (language input)) (language input)"
    and "adapterResponse jp (net 1) = Returned j2"
  shows "runPrescriptionSimplifier e jp lc net input =
           (Returned
              (case (if falsy j2 then None else prescriptionSimplifyResponseSchema j2) of
                 None \<Rightarrow> fallbackPrescriptionSummary lc input
               | Some t \<Rightarrow>
                   if isPrescriptionLanguageAligned (coercePrescriptionLanguage t (language input))
                        (language input)
                   then coercePrescriptionLanguage t (language input)
                   else fallbackPrescriptionSummary lc input),
            [simplifyCall e, translateCall e])"
  using assms
  by (auto simp: runPrescriptionSimplifier_def Let_def simplifyCall_def translateCall_def
      requestGeminiJson_def translatePrescriptionSummaryToLanguage_def split: option.splits)

lemma simplifier_calls:
  "snd (runPrescriptionSimplifier e jp lc net input) \<in>
     {[], [simplifyCall e], [simplifyCall e, translateCall e]}"
  by (auto simp: runPrescriptionSimplifier_def Let_def simplifyCall_def translateCall_def
      requestGeminiJson_def translatePrescriptionSummaryToLanguage_def
      split: option.splits completion.splits prod.splits)

lemma simplifier_returns_unless_adapter_throws:
  assumes "\<forall>i. \<forall>x. adapterResponse jp (net i) \<noteq> Thrown x"
  shows "\<exists>s. fst (runPrescriptionSimplifier e jp lc net input) = Returned s"
proof -
  have a: "\<And>i. \<exists>j. adapterResponse jp (net i) = Returned j"
    using assms by (metis completion.exhaust)
  obtain j0 where j0: "adapterResponse jp (net 0) = Returned j0" using a by blast
  obtain j1 where j1: "adapterResponse jp (net 1) = Returned j1" using a by blast
  show ?thesis
    using j0 j1
    by (auto simp: runPrescriptionSimplifier_def Let_def requestGeminiJson_def
        translatePrescriptionSummaryToLanguage_def split: option.splits)
qed

lemma simplifier_rejected:
  "keyConfigured e \<Longrightarrow> net 0 = FetchRejected \<Longrightarrow>
   fst (runPrescriptionSimplifier e jp lc net input) = Thrown FetchError"
  by (simp add: runPrescriptionSimplifier_def requestGeminiJson_def adapterResponse_def Let_def)

text \<open>
  Claim C3. When the adapter answers, the simplifier behaves as claimed: null or a reply
  that fails the schema gives the fallback, a misaligned reply gets one translation call
  whose reply is validated and checked again, and the fallback is returned when that fails
  too (the lemmas above). But a simplify request does surface a model failure to the
  user: when the network rejects the \<open>fetch\<close>, the adapter throws, nothing catches it
  before the handler, and the handler answers with status 503 instead of the fallback.
\<close>

theorem simplify_route_error_on_rejected_fetch:
  "simplifyRoute \<lparr>GEMINI_API_KEY = Some (lit ''key''), GEMINI_MODEL = None\<rparr> (\<lambda>t. None)
     (\<lambda>c. [c]) (\<lambda>i. FetchRejected)
     \<lparr>rxText = lit ''Take Paracetamol 500mg twice daily for 5 days after food. Qty 10.'',
       language = EN\<rparr> = ErrorReply 503 FetchError"
proof -
  have "keyConfigured \<lparr>GEMINI_API_KEY = Some (lit ''key''), GEMINI_MODEL = None\<rparr>"
    by (simp add: keyConfigured_def lit_def)
  then show ?thesis
    by (simp add: simplifyRoute_def simplifier_rejected)
qed

subsection \<open>Language alignment\<close>

lemma execFrom_Cls_None: "execFrom (Cls p) pv s i = None \<longleftrightarrow> \<not> list_ex p s"
proof (induction s arbitrary: pv i)
  case Nil
  then show ?case by simp
next
  case (Cons c cs)
  show ?case
  proof (cases "p c")
    case True
    then show ?thesis by simp
  next
    case False
    then show ?thesis using Cons.IH [of "Some c" "Suc i"] by simp
  qed
qed

lemma aligned_iff:
  "isPrescriptionLanguageAligned s l \<longleftrightarrow>
     l = EN \<or>
     (list_ex (inScript l) (prescriptionNarrativeText s) \<and>
      length (filter isLatin (prescriptionNarrativeText s)) \<le> 1)"
proof (cases "exec (Cls (inScript l)) (prescriptionNarrativeText s)")
  case None
  then show ?thesis
    using execFrom_Cls_None [of "inScript l" None "prescriptionNarrativeText s" 0]
    by (simp add: isPrescriptionLanguageAligned_def exec_def)
next
  case (Some m)
  then have "list_ex (inScript l) (prescriptionNarrativeText s)"
    using execFrom_Cls_None [of "inScript l" None "prescriptionNarrativeText s" 0]
    by (simp add: exec_def)
  moreover have "(of_nat n :: rat) > 12 / 10 \<longleftrightarrow> \<not> n \<le> 1" for n :: nat
  proof (cases "n \<le> 1")
    case True
    then have "n = 0 \<or> n = 1" by auto
    then show ?thesis by auto
  next
    case False
    then have "2 \<le> n" by simp
    then have "(2 :: rat) \<le> of_nat n" by (metis of_nat_le_iff of_nat_numeral)
    then show ?thesis using False by simp
  qed
  ultimately show ?thesis
    using Some by (simp add: isPrescriptionLanguageAligned_def)
qed

lemma no_script_not_aligned:
  "l \<noteq> EN \<Longrightarrow> \<not> list_ex (inScript l) (prescriptionNarrativeText s) \<Longrightarrow>
   \<not> isPrescriptionLanguageAligned s l"
  by (simp add: aligned_iff)

lemma hindiWithQuantity_narrative:
  "prescriptionNarrativeText hindiWithQuantity =
     warningEmptyStomach fallbackHI @ lit '' Qty 10''"
  by (simp add: prescriptionNarrativeText_def hindiWithQuantity_def fallbackHI_def
      sanitizeTriageText_def trim_def lit_def js_eval)

text \<open>
  Claim C8. The check is to fail exactly when the narrative has no unit of the target
  script or more Latin letters than 1.2 times its units of the target script. A summary
  without any unit of the script does fail (\<open>no_script_not_aligned\<close>). But the code
  counts one script unit at most, so it fails every narrative with two Latin letters
  (\<open>aligned_iff\<close>): the Hindi summary below has 15 Devanagari units and the 3 Latin letters
  of \<open>Qty 10\<close>, it is aligned by the claim's rule and misaligned for the code.
\<close>

theorem alignment_counts_first_script_unit_only:
  "\<not> isPrescriptionLanguageAligned hindiWithQuantity HI \<and> alignedByCounts hindiWithQuantity HI \<and>
   length (filter (inScript HI) (prescriptionNarrativeText hindiWithQuantity)) = 15 \<and>
   length (filter isLatin (prescriptionNarrativeText hindiWithQuantity)) = 3"
  by (simp add: aligned_iff alignedByCounts_def hindiWithQuantity_narrative fallbackHI_def
      inScript_def lit_def js_eval)

subsection \<open>The language of a returned summary\<close>

text \<open>
  Claim C9. Every summary that \<open>runPrescriptionSimplifier\<close> returns, on the model path,
  after a translation retry or as the fallback, carries the requested language code and
  the label of that code in \<open>prescriptionLanguageLabels\<close>, whatever code and label the
  model supplied.
\<close>

theorem returned_summary_language:
  assumes "runPrescriptionSimplifier e jp lc net input = (Returned s, calls)"
  shows "languageCode s = language input \<and>
         languageLabel s = prescriptionLanguageLabels (language input)"
  using assms fallback_language [of lc input]
  by (auto simp: runPrescriptionSimplifier_def Let_def coerce_language
      split: prod.splits completion.splits if_splits option.splits dest: translate_language)

lemma sample_adapter:
  "adapterResponse sampleParser (Response True 200 (lit ''{body}'')) = Returned sampleSummaryJson"
  by (simp add: adapterResponse_def sampleParser_def sampleBodyJson_def candidateText_def
      trim_def lit_def js_eval)

lemma sample_schema:
  "prescriptionSimplifyResponseSchema sampleSummaryJson =
     Some (sampleSummary\<lparr>languageCode := TA, languageLabel := lit ''Klingon''\<rparr>)"
  by (simp add: prescriptionSimplifyResponseSchema_def prescriptionSimplifiedMedicineSchema_def
      sampleSummaryJson_def sampleSummary_def strictKeys_def strField_def arrayField_def
      boundedString_def prescriptionLanguageSchema_def prescriptionTimingSlotSchema_def
      timingSlotNames_def lit_def)

lemma sample_run:
  "runPrescriptionSimplifier \<lparr>GEMINI_API_KEY = Some (lit ''key''), GEMINI_MODEL = None\<rparr>
     sampleParser (\<lambda>c. [c]) (\<lambda>i. Response True 200 (lit ''{body}''))
     \<lparr>rxText = lit ''Paracetamol 500mg for 5 days'', language = EN\<rparr> =
   (Returned sampleSummary,
    [\<lparr>callModel = lit ''gemini-2.5-flash'', callPrompt = SimplifyPrompt, callTemperature = 2 / 10\<rparr>])"
proof -
  have k: "keyConfigured \<lparr>GEMINI_API_KEY = Some (lit ''key''), GEMINI_MODEL = None\<rparr>"
    by (simp add: keyConfigured_def lit_def)
  have f: "\<not> falsy sampleSummaryJson" by (simp add: sampleSummaryJson_def)
  show ?thesis
    using k f
    by (simp add: runPrescriptionSimplifier_def Let_def requestGeminiJson_def sample_adapter
        sample_schema isPrescriptionLanguageAligned_def coercePrescriptionLanguage_def
        sampleSummary_def modelName_def prescriptionLanguageLabels_def)
qed

theorem returned_summary_language_witness:
  "runPrescriptionSimplifier \<lparr>GEMINI_API_KEY = Some (lit ''key''), GEMINI_MODEL = None\<rparr>
     sampleParser (\<lambda>c. [c]) (\<lambda>i. Response True 200 (lit ''{body}''))
     \<lparr>rxText = lit ''Paracetamol 500mg for 5 days'', language = EN\<rparr> =
   (Returned sampleSummary,
    [\<lparr>callModel = lit ''gemini-2.5-flash'', callPrompt = SimplifyPrompt, callTemperature = 2 / 10\<rparr>]) \<and>
   languageCode sampleSummary = EN \<and> languageLabel sampleSummary = lit ''English''"
  using sample_run returned_summary_language [OF sample_run]
  by (simp add: prescriptionLanguageLabels_def)


section \<open>Properties of the deterministic extractor\<close>

lemma set_uniqueInOrder: "set (uniqueInOrder xs) = set xs"
  by (induction xs rule: uniqueInOrder.induct) auto

lemma distinct_uniqueInOrder: "distinct (uniqueInOrder xs)"
  by (induction xs rule: uniqueInOrder.induct) (auto simp: set_uniqueInOrder)

lemma length_uniqueInOrder: "length (uniqueInOrder xs) \<le> length xs"
proof (induction xs rule: uniqueInOrder.induct)
  case 1
  then show ?case by simp
next
  case (2 x xs)
  have "length (filter (\<lambda>y. y \<noteq> x) xs) \<le> length xs" by simp
  with 2 have "length (uniqueInOrder (filter (\<lambda>y. y \<noteq> x) xs)) \<le> length xs"
    by linarith
  then show ?case by simp
qed

lemma uniqueInOrder_Nil: "uniqueInOrder xs = [] \<longleftrightarrow> xs = []"
  by (cases xs) auto

lemma length_pushIf: "length (pushIf v f) \<le> 1"
  by (simp add: pushIf_def split: option.splits)

lemma length_extractInstructions: "length (extractInstructions ft t l) \<le> 7"
proof -
  have "length (extractInstructions ft t l) \<le>
      1 + 1 + length (pushIf (wholeOf (exec frequencyRegex t)) trim) +
      length (pushIf (groupOf (exec qtyRegex t) 1) (\<lambda>q. lit ''Qty '' @ q)) +
      length (pushIf (wholeOf (exec conditionRegex t)) trim) +
      length (pushIf (groupOf (exec explicitInstructionRegex t) 1) trim) +
      length (pushIf (wholeOf (exec tabletCountRegex t)) trim)"
    by (simp add: extractInstructions_def)
  also have "\<dots> \<le> 1 + 1 + 1 + 1 + 1 + 1 + 1"
    by (intro add_mono length_pushIf order_refl)
  finally show ?thesis by simp
qed

lemma orElse_nonempty: "d \<noteq> [] \<Longrightarrow> orElse v d \<noteq> []"
  by (simp add: orElse_def split: option.splits)

lemma defaults_nonempty:
  "defaultMedicine (prescriptionFallbackByLanguage l) \<noteq> [] \<and>
   defaultDosage (prescriptionFallbackByLanguage l) \<noteq> [] \<and>
   defaultDuration (prescriptionFallbackByLanguage l) \<noteq> []"
  by (cases l)
    (simp_all add: prescriptionFallbackByLanguage_def fallbackEN_def fallbackHI_def
      fallbackTA_def fallbackBN_def lit_def)

lemma length_useDirective:
  "5 \<le> length (useDirective (prescriptionFallbackByLanguage l) n d)"
  by (cases l)
    (simp_all add: prescriptionFallbackByLanguage_def fallbackEN_def fallbackHI_def
      fallbackTA_def fallbackBN_def lit_def)

lemma length_joinSpace_first: "length a \<le> length (joinSpace (a # xs))"
  by (cases xs) auto

lemma length_timingSlots:
  "1 \<le> length (extractTimingSlotsFromText lc t) \<and> length (extractTimingSlotsFromText lc t) \<le> 4 \<and>
   distinct (extractTimingSlotsFromText lc t)"
proof -
  have u: "xs \<noteq> [] \<Longrightarrow> length xs \<le> 4 \<Longrightarrow>
      1 \<le> length (uniqueInOrder xs) \<and> length (uniqueInOrder xs) \<le> 4 \<and> distinct (uniqueInOrder xs)"
    for xs :: "timingSlot list"
    using length_uniqueInOrder [of xs] uniqueInOrder_Nil [of xs] distinct_uniqueInOrder [of xs]
    by (cases "uniqueInOrder xs") auto
  have one: "length (if c then [x] else []) \<le> 1" for c and x :: "'b"
    by simp
  have p0: "length ((if a then [x] else []) @ (if b then [y] else []) @ (if c then [z] else [])) \<le> 3"
    for a b c and x y z :: string
    by simp
  have p1: "length (if a then [x, y, z] else if b then [x, z] else if c then [x] else []) \<le> 3"
    for a b c and x y z :: string
    by simp
  have p: "length (if q = [] then r else q) \<le> 3" if "length q \<le> 3" "length r \<le> 3"
    for q r :: "string list"
    using that by simp
  have s4: "length (map f q @ (if b then [BEDTIME] else [])) \<le> 4" if "length q \<le> 3"
    for f :: "string \<Rightarrow> timingSlot" and q b
    using that by simp
  have fin: "1 \<le> length (if a then [AS_NEEDED] else if xs = [] then [UNSPECIFIED] else uniqueInOrder xs) \<and>
      length (if a then [AS_NEEDED] else if xs = [] then [UNSPECIFIED] else uniqueInOrder xs) \<le> 4 \<and>
      distinct (if a then [AS_NEEDED] else if xs = [] then [UNSPECIFIED] else uniqueInOrder xs)"
    if "length xs \<le> 4" for a xs
    using that u [of xs] by simp
  show ?thesis
    unfolding extractTimingSlotsFromText_def Let_def
    by (intro fin s4 p p0 p1)
qed

lemma fallback_medicines:
  "\<exists>n d u.
     medicines (fallbackPrescriptionSummary lc input) =
       [\<lparr>medicineName = orElse n (defaultMedicine (prescriptionFallbackByLanguage (language input))),
         dosage = orElse d (defaultDosage (prescriptionFallbackByLanguage (language input))),
         duration = orElse u (defaultDuration (prescriptionFallbackByLanguage (language input))),
         timingSlots = extractTimingSlotsFromText lc
           (toLowerCase lc (sanitizeTriageText (rxText input))),
         instructions = uniqueInOrder (filter (\<lambda>v. v \<noteq> []) (map trim
           (extractInstructions (prescriptionFallbackByLanguage (language input))
              (sanitizeTriageText (rxText input))
              (toLowerCase lc (sanitizeTriageText (rxText input))))))\<rparr>]"
  unfolding fallbackPrescriptionSummary_def Let_def
  by (simp split del: if_split) blast

lemma fallback_explanation:
  "\<exists>n d xs.
     doctorExplanation (fallbackPrescriptionSummary lc input) =
       joinSpace (filter (\<lambda>v. v \<noteq> [])
         (useDirective (prescriptionFallbackByLanguage (language input)) n d # xs))"
  unfolding fallbackPrescriptionSummary_def Let_def
  by (simp split del: if_split) blast

lemma fallback_advice:
  "length (warnings (fallbackPrescriptionSummary lc input)) \<le> 1 \<and>
   set (warnings (fallbackPrescriptionSummary lc input)) \<subseteq>
     {warningEmptyStomach (prescriptionFallbackByLanguage (language input)),
      warningGeneric (prescriptionFallbackByLanguage (language input))} \<and>
   length (hydrationTips (fallbackPrescriptionSummary lc input)) \<le> 1 \<and>
   set (hydrationTips (fallbackPrescriptionSummary lc input)) \<subseteq>
     {hydrationTip (prescriptionFallbackByLanguage (language input))} \<and>
   generalAdvice (fallbackPrescriptionSummary lc input) =
     [generalAdviceText (prescriptionFallbackByLanguage (language input))]"
  unfolding fallbackPrescriptionSummary_def Let_def
  by simp

subsection \<open>A run of one unit, as long as it may be\<close>

text \<open>
  The quantifiers over a class, on an input whose middle is a run of any length: the rules
  below let a pattern be matched against such an input without unfolding the run.
\<close>

lemma repeat_stops:
  "stopsAt p r \<Longrightarrow> repeatMatcher n (unitMatcher p) 0 None k (MState pv r c) = k (MState pv r c)"
  by (cases n) (simp_all add: unit_stops)

lemma repeat_step:
  "p x \<Longrightarrow> length r < n \<Longrightarrow>
   repeatMatcher n (unitMatcher p) 0 None k (MState pv (x # r) c) =
     (case repeatMatcher (n - 1) (unitMatcher p) 0 None k (MState (Some x) r c) of
        Some z \<Rightarrow> Some z
      | None \<Rightarrow> k (MState pv (x # r) c))"
  by (cases n) simp_all

lemma repeat_unfold:
  "0 < n \<Longrightarrow> lo \<noteq> 0 \<or> hi \<noteq> None \<Longrightarrow>
   repeatMatcher n f lo hi k s =
     (if hi = Some 0 then k s
      else if lo \<noteq> 0 then
        f (repeatMatcher (n - 1) f (lo - 1) (map_option (\<lambda>h. h - 1) hi) k) s
      else
        (case f (progressCheck (length (rest s))
                  (repeatMatcher (n - 1) f 0 (map_option (\<lambda>h. h - 1) hi) k)) s of
           Some z \<Rightarrow> Some z
         | None \<Rightarrow> k s))"
  by (cases n) simp_all

lemma repeat_run_all:
  assumes "list_all p xs" and "length xs \<le> n" and "k (MState (lastUnit pv xs) [] c) \<noteq> None"
  shows "repeatMatcher n (unitMatcher p) 0 None k (MState pv xs c) =
           k (MState (lastUnit pv xs) [] c)"
  using repeat_run_success [of p xs "[]" n k pv c] assms by (simp add: stopsAt_Nil)

lemma list_all_replicate: "list_all p (replicate n a) \<longleftrightarrow> n = 0 \<or> p a"
  by (induction n) auto

lemma lastUnit_replicate: "lastUnit (Some a) (replicate n a) = Some a"
  by (simp add: lastUnit_def)

lemma lastUnit_snoc: "lastUnit pv (xs @ y # ys) = Some (last (y # ys))"
  by (simp add: lastUnit_def)

lemma execFrom_Bol: "execFrom (Seq Bol r) (Some u) s i = None"
  by (induction s arbitrary: u i) simp_all

lemmas symbolic_syntax =
  seqs_def alts_def strI_def chrI_def strS_def chrS_def opt_def exec_def lit_def
  matcher_Cls matcher_star_class matcher_plus_class isWordAt_def nextUnit_def

lemmas symbolic_rules =
  repeat_stops repeat_step repeat_unfold repeat_run_success repeat_run_all stopsAt_Cons stopsAt_Nil
  list_all_replicate lastUnit_replicate lastUnit_snoc

definition longText :: "nat \<Rightarrow> jsstring" where
  "longText m = lit ''if '' @ replicate (Suc m) 65 @ lit '' 5mg''"

lemma long_condition:
  "wholeOf (exec conditionRegex (longText m)) = Some (longText m)"
  by (simp add: longText_def conditionRegex_def symbolic_syntax symbolic_rules js_eval wholeOf_def
      del: repeatMatcher.simps(2))

lemma long_medicine:
  "groupOf (exec medicineRegex (longText m)) 1 = Some (lit ''if '' @ replicate (Suc m) 65)"
  by (simp add: longText_def medicineRegex_def nameWord_def formPrefix_def symbolic_syntax
      symbolic_rules js_eval groupOf_def del: repeatMatcher.simps(2))

lemma collapseWhite_run:
  "\<not> isWhite a \<Longrightarrow> collapseWhite (replicate m a @ r) = replicate m a @ collapseWhite r"
  by (induction m) simp_all

lemma long_sanitized: "sanitizeTriageText (longText m) = longText m"
  by (simp add: longText_def sanitizeTriageText_def trim_def lit_def collapseWhite_run js_eval)

lemma dropWhile_run:
  "\<not> p a \<Longrightarrow> dropWhile p (replicate m a @ a # r) = replicate m a @ a # r"
  by (cases m) simp_all

lemma long_name_trimmed:
  "trim (lit ''if '' @ replicate (Suc m) 65) = lit ''if '' @ replicate (Suc m) 65"
  by (simp add: trim_def lit_def dropWhile_run js_eval)

lemma long_trimmed: "trim (longText m) = longText m"
  by (simp add: longText_def trim_def lit_def js_eval)

lemma long_no_form: "exec leadingFormRegex (lit ''if '' @ replicate (Suc m) 65) = None"
  by (simp add: leadingFormRegex_def formPrefix_def seqs_def alts_def strI_def chrI_def opt_def
      exec_def lit_def execFrom_Bol js_eval del: execFrom.simps
      add: execFrom.simps [of _ None])

subsection \<open>What the summary is made of\<close>

lemma fallback_instructions:
  "instructions (hd (medicines (fallbackPrescriptionSummary lc input))) =
     uniqueInOrder (filter (\<lambda>v. v \<noteq> []) (map trim
       (extractInstructions (prescriptionFallbackByLanguage (language input))
          (sanitizeTriageText (rxText input))
          (toLowerCase lc (sanitizeTriageText (rxText input))))))"
  unfolding fallbackPrescriptionSummary_def Let_def
  by (simp split del: if_split)

lemma fallback_name:
  "medicineName (hd (medicines (fallbackPrescriptionSummary lc input))) =
     orElse (map_option (\<lambda>g. trim (removeFirst leadingFormRegex g))
               (groupOf (exec medicineRegex (sanitizeTriageText (rxText input))) 1))
            (defaultMedicine (prescriptionFallbackByLanguage (language input)))"
  unfolding fallbackPrescriptionSummary_def Let_def
  by (simp split del: if_split)

lemma fallback_explanation_name:
  "\<exists>d xs.
     doctorExplanation (fallbackPrescriptionSummary lc input) =
       joinSpace (filter (\<lambda>v. v \<noteq> [])
         (useDirective (prescriptionFallbackByLanguage (language input))
            (medicineName (hd (medicines (fallbackPrescriptionSummary lc input)))) d # xs))"
  unfolding fallbackPrescriptionSummary_def Let_def
  by (simp split del: if_split) blast

lemma condition_instruction:
  assumes "wholeOf (exec conditionRegex t) = Some v" and "v \<noteq> []" and "trim v = v"
  shows "v \<in> set (uniqueInOrder (filter (\<lambda>v. v \<noteq> []) (map trim (extractInstructions ft t lower))))"
  using assms unfolding set_uniqueInOrder extractInstructions_def
  by (simp add: pushIf_def split del: if_split)

lemma useDirective_holds_name:
  "length n \<le> length (useDirective (prescriptionFallbackByLanguage l) n d)"
  by (cases l) (simp_all add: prescriptionFallbackByLanguage_def fallbackEN_def fallbackHI_def
      fallbackTA_def fallbackBN_def)

text \<open>
  The phrases of a language that the extractor renders as instructions, warnings, tips and
  advice.
\<close>

definition phraseTable :: "fallbackPhrases \<Rightarrow> jsstring list" where
  "phraseTable f =
     [takeAfterFood f, takeBeforeFood f, warningEmptyStomach f, warningGeneric f, hydrationTip f,
      generalAdviceText f]"

lemma long_length: "length (longText m) = m + 8"
  by (simp add: longText_def lit_def)

lemma phrase_lengths: "\<forall>p \<in> set (phraseTable fallbackHI). length p < 220"
  by (simp add: phraseTable_def fallbackHI_def lit_def)

lemma long_instruction:
  "longText m \<in> set (instructions (hd (medicines
     (fallbackPrescriptionSummary lc \<lparr>rxText = longText m, language = l\<rparr>))))"
  unfolding fallback_instructions
proof (rule condition_instruction)
  show "wholeOf (exec conditionRegex
      (sanitizeTriageText (rxText \<lparr>rxText = longText m, language = l\<rparr>))) = Some (longText m)"
    by (simp add: long_sanitized long_condition)
  show "longText m \<noteq> []"
    by (simp add: longText_def lit_def)
  show "trim (longText m) = longText m"
    by (rule long_trimmed)
qed

lemma long_name:
  "medicineName (hd (medicines
     (fallbackPrescriptionSummary lc \<lparr>rxText = longText m, language = l\<rparr>))) =
   lit ''if '' @ replicate (Suc m) 65"
  unfolding fallback_name
  using long_medicine [of m] long_no_form [of m] long_name_trimmed [of m]
  by (simp add: long_sanitized removeFirst_def orElse_def lit_def)

lemma long_explanation:
  "m + 4 \<le> length (doctorExplanation
     (fallbackPrescriptionSummary lc \<lparr>rxText = longText m, language = l\<rparr>))"
proof -
  let ?fb = "fallbackPrescriptionSummary lc \<lparr>rxText = longText m, language = l\<rparr>"
  obtain d xs where e: "doctorExplanation ?fb =
      joinSpace (filter (\<lambda>v. v \<noteq> [])
        (useDirective (prescriptionFallbackByLanguage l) (lit ''if '' @ replicate (Suc m) 65) d # xs))"
    using fallback_explanation_name [of lc "\<lparr>rxText = longText m, language = l\<rparr>"]
    unfolding long_name by auto
  have n: "m + 4 \<le> length (useDirective (prescriptionFallbackByLanguage l)
      (lit ''if '' @ replicate (Suc m) 65) d)"
    using useDirective_holds_name [of "lit ''if '' @ replicate (Suc m) 65" l d]
    by (simp add: lit_def)
  have ne: "useDirective (prescriptionFallbackByLanguage l)
      (lit ''if '' @ replicate (Suc m) 65) d \<noteq> []"
    using n by auto
  have "length (useDirective (prescriptionFallbackByLanguage l)
      (lit ''if '' @ replicate (Suc m) 65) d) \<le> length (doctorExplanation ?fb)"
    unfolding e using ne by (simp add: length_joinSpace_first del: replicate_Suc)
  with n show ?thesis by linarith
qed

subsection \<open>The example of the specification\<close>

definition exampleText :: jsstring where
  "exampleText = lit ''Take Paracetamol 500mg twice daily for 5 days after food. Qty 10.''"

definition exampleLower :: jsstring where
  "exampleLower = lit ''take paracetamol 500mg twice daily for 5 days after food. qty 10.''"

lemmas example_eval = exampleText_def exampleLower_def extractor_patterns regex_syntax js_eval

lemma example_sanitized: "sanitizeTriageText exampleText = exampleText"
  by (simp add: exampleText_def sanitizeTriageText_def trim_def lit_def js_eval)

lemma example_lowered: "toLowerCase (\<lambda>c. [c]) exampleText = exampleLower"
  by (simp add: exampleText_def exampleLower_def toLowerCase_def lit_def js_eval)

lemma example_medicine:
  "groupOf (exec medicineRegex exampleText) 1 = Some (lit ''Paracetamol'') \<and>
   groupOf (exec medicineRegex exampleText) 2 = Some (lit ''500mg'')"
  by (simp add: example_eval groupOf_def)

lemma example_name: "trim (removeFirst leadingFormRegex (lit ''Paracetamol'')) = lit ''Paracetamol''"
  by (simp add: example_eval removeFirst_def trim_def)

lemma example_dose: "trim (collapseWhite (lit ''500mg'')) = lit ''500mg''"
  by (simp add: trim_def lit_def js_eval)

lemma example_duration: "groupOf (exec durationRegex exampleLower) 1 = Some (lit ''5 days'')"
  by (simp add: example_eval groupOf_def)

lemma example_warnings:
  "\<not> testRe emptyStomachRegex exampleLower \<and> \<not> testRe avoidRegex exampleLower \<and>
   \<not> testRe hydrationRegex exampleLower"
  by (simp add: example_eval)

lemma example_timing:
  "extractTimingSlotsFromText (\<lambda>c. [c]) exampleLower = [MORNING_AFTER_FOOD, NIGHT_AFTER_FOOD]"
  by (simp add: example_eval extractTimingSlotsFromText_def Let_def toLowerCase_def
      buildPrescriptionTimingSlot_def)

lemma example_instructions:
  "extractInstructions fallbackEN exampleText exampleLower =
     [lit ''Take after food.'', lit ''twice daily'', lit ''Qty 10'']"
  by (simp add: example_eval extractInstructions_def pushIf_def wholeOf_def groupOf_def trim_def
      fallbackEN_def)

definition exampleRequest :: simplifyRequest where
  "exampleRequest = \<lparr>rxText = exampleText, language = EN\<rparr>"

definition exampleSummary :: simplifiedSummary where
  "exampleSummary =
     \<lparr>languageCode = EN,
      languageLabel = lit ''English'',
      doctorExplanation = lit
        ''Use Paracetamol 500mg as directed by your doctor. Follow the schedule for 5 days. Take after food.'',
      medicines =
        [\<lparr>medicineName = lit ''Paracetamol'', dosage = lit ''500mg'', duration = lit ''5 days'',
          timingSlots = [MORNING_AFTER_FOOD, NIGHT_AFTER_FOOD],
          instructions = [lit ''Take after food.'', lit ''twice daily'', lit ''Qty 10'']\<rparr>],
      warnings = [],
      hydrationTips = [],
      generalAdvice =
        [lit ''Consult a licensed doctor if symptoms worsen or if side effects appear.'']\<rparr>"

lemma example_summary: "fallbackPrescriptionSummary (\<lambda>c. [c]) exampleRequest = exampleSummary"
  using example_medicine example_name example_dose example_duration example_warnings
    example_timing example_instructions
  by (simp add: fallbackPrescriptionSummary_def Let_def exampleRequest_def exampleSummary_def
      example_sanitized example_lowered orElse_def prescriptionFallbackByLanguage_def
      fallbackEN_def prescriptionLanguageLabels_def trim_def lit_def js_eval)

subsection \<open>The summary and the output contract\<close>

text \<open>
  Claim C4, amended. For every request the summary of the deterministic extractor has the
  requested language code and the label of that language, a \<open>doctorExplanation\<close> of at
  least 5 units, exactly one medicine with a non-empty name, dosage and duration, 1 to 4
  distinct timing slots and at most 7 distinct, non-empty instructions; at most one warning
  and at most one hydration tip, each a phrase of the language's table, and as general advice
  the one phrase of the table. No upper bound on the lengths is promised: the name, the
  instructions and the explanation carry fragments of the prescription text as they are.
\<close>

theorem fallback_summary_shape:
  "languageCode (fallbackPrescriptionSummary lc input) = language input \<and>
   languageLabel (fallbackPrescriptionSummary lc input) =
     prescriptionLanguageLabels (language input) \<and>
   5 \<le> length (doctorExplanation (fallbackPrescriptionSummary lc input)) \<and>
   length (medicines (fallbackPrescriptionSummary lc input)) = 1 \<and>
   (\<forall>m \<in> set (medicines (fallbackPrescriptionSummary lc input)).
      medicineName m \<noteq> [] \<and> dosage m \<noteq> [] \<and> duration m \<noteq> [] \<and>
      1 \<le> length (timingSlots m) \<and> length (timingSlots m) \<le> 4 \<and> distinct (timingSlots m) \<and>
      length (instructions m) \<le> 7 \<and> distinct (instructions m) \<and>
      (\<forall>i \<in> set (instructions m). i \<noteq> [])) \<and>
   length (warnings (fallbackPrescriptionSummary lc input)) \<le> 1 \<and>
   set (warnings (fallbackPrescriptionSummary lc input)) \<subseteq>
     {warningEmptyStomach (prescriptionFallbackByLanguage (language input)),
      warningGeneric (prescriptionFallbackByLanguage (language input))} \<and>
   length (hydrationTips (fallbackPrescriptionSummary lc input)) \<le> 1 \<and>
   set (hydrationTips (fallbackPrescriptionSummary lc input)) \<subseteq>
     {hydrationTip (prescriptionFallbackByLanguage (language input))} \<and>
   generalAdvice (fallbackPrescriptionSummary lc input) =
     [generalAdviceText (prescriptionFallbackByLanguage (language input))]"
proof -
  let ?ft = "prescriptionFallbackByLanguage (language input)"
  let ?t = "sanitizeTriageText (rxText input)"
  let ?ins = "uniqueInOrder (filter (\<lambda>v. v \<noteq> [])
      (map trim (extractInstructions ?ft ?t (toLowerCase lc ?t))))"
  have ins_len: "length ?ins \<le> 7"
  proof -
    have "length ?ins \<le> length (filter (\<lambda>v. v \<noteq> [])
        (map trim (extractInstructions ?ft ?t (toLowerCase lc ?t))))"
      by (rule length_uniqueInOrder)
    also have "\<dots> \<le> length (map trim (extractInstructions ?ft ?t (toLowerCase lc ?t)))"
      by (rule length_filter_le)
    also have "\<dots> \<le> 7" using length_extractInstructions by simp
    finally show ?thesis .
  qed
  have ins_ne: "\<forall>i \<in> set ?ins. i \<noteq> []"
    unfolding set_uniqueInOrder by simp
  have ins_d: "distinct ?ins" by (rule distinct_uniqueInOrder)
  obtain n d u where m: "medicines (fallbackPrescriptionSummary lc input) =
      [\<lparr>medicineName = orElse n (defaultMedicine ?ft), dosage = orElse d (defaultDosage ?ft),
        duration = orElse u (defaultDuration ?ft),
        timingSlots = extractTimingSlotsFromText lc (toLowerCase lc ?t),
        instructions = ?ins\<rparr>]"
    using fallback_medicines [of lc input] by blast
  have tm: "1 \<le> length (extractTimingSlotsFromText lc (toLowerCase lc ?t)) \<and>
      length (extractTimingSlotsFromText lc (toLowerCase lc ?t)) \<le> 4 \<and>
      distinct (extractTimingSlotsFromText lc (toLowerCase lc ?t))"
    by (rule length_timingSlots)
  have nm: "orElse n (defaultMedicine ?ft) \<noteq> [] \<and> orElse d (defaultDosage ?ft) \<noteq> [] \<and>
      orElse u (defaultDuration ?ft) \<noteq> []"
    using defaults_nonempty [of "language input"] by (simp add: orElse_nonempty)
  have m1: "length (medicines (fallbackPrescriptionSummary lc input)) = 1"
    unfolding m by simp
  have m2: "\<forall>m \<in> set (medicines (fallbackPrescriptionSummary lc input)).
      medicineName m \<noteq> [] \<and> dosage m \<noteq> [] \<and> duration m \<noteq> [] \<and>
      1 \<le> length (timingSlots m) \<and> length (timingSlots m) \<le> 4 \<and> distinct (timingSlots m) \<and>
      length (instructions m) \<le> 7 \<and> distinct (instructions m) \<and>
      (\<forall>i \<in> set (instructions m). i \<noteq> [])"
  proof
    fix md
    assume "md \<in> set (medicines (fallbackPrescriptionSummary lc input))"
    then have md: "md = \<lparr>medicineName = orElse n (defaultMedicine ?ft),
        dosage = orElse d (defaultDosage ?ft), duration = orElse u (defaultDuration ?ft),
        timingSlots = extractTimingSlotsFromText lc (toLowerCase lc ?t),
        instructions = ?ins\<rparr>"
      unfolding m by simp
    have sel: "medicineName md = orElse n (defaultMedicine ?ft)"
      "dosage md = orElse d (defaultDosage ?ft)" "duration md = orElse u (defaultDuration ?ft)"
      "timingSlots md = extractTimingSlotsFromText lc (toLowerCase lc ?t)"
      "instructions md = ?ins"
      unfolding md by simp_all
    show "medicineName md \<noteq> [] \<and> dosage md \<noteq> [] \<and> duration md \<noteq> [] \<and>
      1 \<le> length (timingSlots md) \<and> length (timingSlots md) \<le> 4 \<and> distinct (timingSlots md) \<and>
      length (instructions md) \<le> 7 \<and> distinct (instructions md) \<and>
      (\<forall>i \<in> set (instructions md). i \<noteq> [])"
      unfolding sel using nm tm ins_len ins_d ins_ne by blast
  qed
  obtain n' d' xs where x: "doctorExplanation (fallbackPrescriptionSummary lc input) =
      joinSpace (filter (\<lambda>v. v \<noteq> []) (useDirective ?ft n' d' # xs))"
    using fallback_explanation [of lc input] by blast
  have "useDirective ?ft n' d' \<noteq> []"
    using length_useDirective [of "language input" n' d'] by auto
  then have f: "filter (\<lambda>v. v \<noteq> []) (useDirective ?ft n' d' # xs) =
      useDirective ?ft n' d' # filter (\<lambda>v. v \<noteq> []) xs"
    by simp
  have e5: "5 \<le> length (doctorExplanation (fallbackPrescriptionSummary lc input))"
    unfolding x f
    using length_useDirective [of "language input" n' d']
      length_joinSpace_first [of "useDirective ?ft n' d'" "filter (\<lambda>v. v \<noteq> []) xs"]
    by linarith
  note adv = fallback_advice [of lc input]
  note lng = fallback_language [of lc input]
  show ?thesis
    by (intro conjI lng [THEN conjunct1] lng [THEN conjunct2] e5 m1 m2
        adv [THEN conjunct1] adv [THEN conjunct2, THEN conjunct1]
        adv [THEN conjunct2, THEN conjunct2, THEN conjunct1]
        adv [THEN conjunct2, THEN conjunct2, THEN conjunct2, THEN conjunct1]
        adv [THEN conjunct2, THEN conjunct2, THEN conjunct2, THEN conjunct2])
qed

theorem fallback_summary_shape_witness:
  "fallbackPrescriptionSummary (\<lambda>c. [c]) exampleRequest = exampleSummary \<and>
   languageCode exampleSummary = language exampleRequest \<and>
   5 \<le> length (doctorExplanation exampleSummary) \<and>
   length (medicines exampleSummary) = 1 \<and>
   length (timingSlots (hd (medicines exampleSummary))) \<le> 4 \<and>
   length (instructions (hd (medicines exampleSummary))) \<le> 7 \<and>
   [] \<notin> set (instructions (hd (medicines exampleSummary)))"
proof -
  let ?ms = "medicines (fallbackPrescriptionSummary (\<lambda>c. [c]) exampleRequest)"
  note shape = fallback_summary_shape [of "\<lambda>c. [c]" exampleRequest]
  have one: "length ?ms = 1"
    using shape by blast
  then have "hd ?ms \<in> set ?ms"
    by (cases ?ms) simp_all
  then have "length (timingSlots (hd ?ms)) \<le> 4 \<and> length (instructions (hd ?ms)) \<le> 7 \<and>
      [] \<notin> set (instructions (hd ?ms))"
    using shape by blast
  moreover have "languageCode (fallbackPrescriptionSummary (\<lambda>c. [c]) exampleRequest) =
      language exampleRequest \<and>
      5 \<le> length (doctorExplanation (fallbackPrescriptionSummary (\<lambda>c. [c]) exampleRequest))"
    using shape by blast
  ultimately show ?thesis
    using one unfolding example_summary by blast
qed

text \<open>
  The contract of \<open>prescriptionSimplifyResponseSchema\<close> bounds a medicine name by 160, an
  instruction by 220 and the explanation by 1200 units. The request \<open>if AAA\<dots>A 5mg\<close> with
  1200 letters is valid (1207 units), and the pattern \<open>/\bif\s+[^.]+/i\<close> makes the whole
  text an instruction, which is no phrase of the table; the name of the medicine is
  \<open>if AAA\<dots>A\<close> (1203 units) and the explanation holds it.
\<close>

definition longRequest :: simplifyRequest where
  "longRequest = \<lparr>rxText = lit ''if '' @ replicate 1200 65 @ lit '' 5mg'', language = HI\<rparr>"

lemma longRequest_text: "longRequest = \<lparr>rxText = longText 1199, language = HI\<rparr>"
  by (simp add: longRequest_def longText_def)

theorem long_fragment_counterexample:
  "validSimplifyRequest longRequest \<and>
   rxText longRequest \<in> set (instructions (hd (medicines
     (fallbackPrescriptionSummary (\<lambda>c. [c]) longRequest)))) \<and>
   length (rxText longRequest) = 1207 \<and>
   rxText longRequest \<notin> set (phraseTable (prescriptionFallbackByLanguage (language longRequest))) \<and>
   1200 < length (doctorExplanation (fallbackPrescriptionSummary (\<lambda>c. [c]) longRequest)) \<and>
   length (medicineName (hd (medicines
     (fallbackPrescriptionSummary (\<lambda>c. [c]) longRequest)))) = 1203"
proof -
  have len: "length (rxText longRequest) = 1207"
    unfolding longRequest_text by (simp add: long_length)
  have v: "validSimplifyRequest longRequest"
    unfolding validSimplifyRequest_def len by simp
  have i: "rxText longRequest \<in> set (instructions (hd (medicines
      (fallbackPrescriptionSummary (\<lambda>c. [c]) longRequest))))"
    unfolding longRequest_text using long_instruction [of 1199 "\<lambda>c. [c]" HI] by simp
  have p: "rxText longRequest \<notin> set (phraseTable (prescriptionFallbackByLanguage (language longRequest)))"
    using phrase_lengths len
    by (auto simp: longRequest_def prescriptionFallbackByLanguage_def)
  have e: "1200 < length (doctorExplanation (fallbackPrescriptionSummary (\<lambda>c. [c]) longRequest))"
    unfolding longRequest_text using long_explanation [of 1199 "\<lambda>c. [c]" HI] by simp
  have n: "length (medicineName (hd (medicines
      (fallbackPrescriptionSummary (\<lambda>c. [c]) longRequest)))) = 1203"
    unfolding longRequest_text long_name by (simp add: lit_def)
  from v i len p e n show ?thesis by blast
qed


section \<open>Properties of the duration in days\<close>






























end
